theory Spec2Isabelle
  imports Main "HOL-Library.AList"
begin

section \<open>JavaScript strings and optional values\<close>

text \<open>
  A JavaScript string is modelled as a \<^typ>\<open>string\<close>: a list of code units, of which only
  those below 256 are represented. An optional property (absent, \<open>undefined\<close> or
  \<open>null\<close>) is an \<^typ>\<open>'a option\<close>. Dates are integers (milliseconds since the epoch);
  invalid dates are not represented.
\<close>

definition truthy :: "string option \<Rightarrow> bool" where
  \<comment> \<open>JavaScript truthiness of an optional string: absent and the empty string are falsy.\<close>
  "truthy v = (case v of None \<Rightarrow> False | Some s \<Rightarrow> s \<noteq> [])"

definition isWhiteSpace :: "char \<Rightarrow> bool" where
  \<comment> \<open>The characters \<open>String.prototype.trim\<close> strips, among the code units below 256:
      TAB, LF, VT, FF, CR, SPACE and NBSP.\<close>
  "isWhiteSpace c = (c \<in> set [CHR 0x09, CHR 0x0A, CHR 0x0B, CHR 0x0C, CHR 0x0D, CHR 0x20, CHR 0xA0])"

definition trim :: "string \<Rightarrow> string" where
  "trim s = rev (dropWhile isWhiteSpace (rev (dropWhile isWhiteSpace s)))"

definition startsWith :: "string \<Rightarrow> string \<Rightarrow> bool" where
  "startsWith s p = (take (length p) s = p)"

definition endsWith :: "string \<Rightarrow> string \<Rightarrow> bool" where
  "endsWith s x = (length x \<le> length s \<and> drop (length s - length x) s = x)"

fun splitNewline :: "string \<Rightarrow> string list" where
  \<comment> \<open>\<open>s.split("\n")\<close>: the segments between line feeds; never an empty list.\<close>
  "splitNewline [] = [[]]"
| "splitNewline (c # cs) =
     (if c = CHR 0x0A then [] # splitNewline cs
      else (case splitNewline cs of
              [] \<Rightarrow> [[c]]
            | l # ls \<Rightarrow> (c # l) # ls))"

section \<open>Thread id validation (utils: isValidThreadId)\<close>

definition isHexDigit :: "char \<Rightarrow> bool" where
  \<comment> \<open>The class \<open>[0-9a-f]\<close> under the regular expression's \<open>i\<close> flag.\<close>
  "isHexDigit c = (c \<in> set ''0123456789abcdefABCDEF'')"

fun hexGroup :: "nat \<Rightarrow> string \<Rightarrow> string option" where
  \<comment> \<open>\<open>[0-9a-f]{n}\<close>: consumes exactly \<open>n\<close> hex digits and returns the rest.\<close>
  "hexGroup 0 s = Some s"
| "hexGroup (Suc n) [] = None"
| "hexGroup (Suc n) (c # s) = (if isHexDigit c then hexGroup n s else None)"

fun hyphen :: "string \<Rightarrow> string option" where
  "hyphen [] = None"
| "hyphen (c # s) = (if c = CHR ''-'' then Some s else None)"

definition isValidThreadId :: "string \<Rightarrow> bool" where
  \<comment> \<open>\<open>/^[0-9a-f]{8}-[0-9a-f]{4}-[0-9a-f]{4}-[0-9a-f]{4}-[0-9a-f]{12}$/i.test(threadId)\<close>\<close>
  "isValidThreadId threadId =
     (Option.bind (Option.bind (Option.bind (Option.bind (Option.bind (Option.bind
       (Option.bind (Option.bind (hexGroup 8 threadId)
          hyphen) (hexGroup 4)) hyphen) (hexGroup 4)) hyphen) (hexGroup 4)) hyphen) (hexGroup 12)
      = Some [])"

text \<open>
  The same format written by position: 36 characters, hex digits in groups of 8, 4, 4, 4
  and 12, a hyphen after each of the first four groups. \<open>hexThreadIdFormat\<close> admits
  hex letters in either case, as the regular expression's \<open>i\<close> flag does;
  \<open>specThreadIdFormat\<close> follows the specification's wording (lowercase only) and is used
  only to compare that wording with \<open>isValidThreadId\<close>.
\<close>

definition groupedFormat :: "(char \<Rightarrow> bool) \<Rightarrow> string \<Rightarrow> bool" where
  "groupedFormat digit t =
     (length t = 36 \<and>
      list_all digit (take 8 t) \<and> t ! 8 = CHR ''-'' \<and>
      list_all digit (take 4 (drop 9 t)) \<and> t ! 13 = CHR ''-'' \<and>
      list_all digit (take 4 (drop 14 t)) \<and> t ! 18 = CHR ''-'' \<and>
      list_all digit (take 4 (drop 19 t)) \<and> t ! 23 = CHR ''-'' \<and>
      list_all digit (drop 24 t))"

definition hexThreadIdFormat :: "string \<Rightarrow> bool" where
  "hexThreadIdFormat t = groupedFormat isHexDigit t"

definition isLowerHexDigit :: "char \<Rightarrow> bool" where
  "isLowerHexDigit c = (c \<in> set ''0123456789abcdef'')"

definition specThreadIdFormat :: "string \<Rightarrow> bool" where
  "specThreadIdFormat t = groupedFormat isLowerHexDigit t"

section \<open>Streaming session (hooks: useSSEConnection)\<close>

datatype ConnectionState = Disconnected | Connecting | Connected | Error | Reconnecting

text \<open>
  The hook's state and refs. \<open>delivered\<close> records the calls of the \<open>onEvent\<close> callback and
  \<open>requests\<close> the URLs passed to \<open>fetch\<close>, oldest first. \<open>readerRef\<close> tells whether a
  stream reader is held. The refs \<open>eventSourceRef\<close> and \<open>reconnectTimeoutRef\<close> are never
  assigned by the hook and stay null, so they are left out.
\<close>

record 'ev sse =
  connectionState :: ConnectionState
  sse_error :: "string option"
  lastEvent :: "'ev option"
  isCancellingRef :: bool
  readerRef :: bool
  currentThreadIdRef :: "string option"
  reconnectAttemptsRef :: nat
  delivered :: "'ev list"
  requests :: "string list"

definition sse_initial :: "'ev sse" where
  "sse_initial = \<lparr> connectionState = Disconnected, sse_error = None, lastEvent = None,
     isCancellingRef = False, readerRef = False, currentThreadIdRef = None,
     reconnectAttemptsRef = 0, delivered = [], requests = [] \<rparr>"

definition handleOpen :: "'ev sse \<Rightarrow> 'ev sse" where
  "handleOpen s = s\<lparr> connectionState := Connected, sse_error := None, reconnectAttemptsRef := 0 \<rparr>"

definition disconnect :: "'ev sse \<Rightarrow> 'ev sse" where
  \<comment> \<open>The timer that resets \<open>isCancellingRef\<close> after 100 ms is \<open>cancelGraceElapsed\<close>.\<close>
  "disconnect s = s\<lparr> isCancellingRef := True, readerRef := False,
     connectionState := Disconnected, sse_error := None, reconnectAttemptsRef := 0,
     currentThreadIdRef := None \<rparr>"

definition cancelGraceElapsed :: "'ev sse \<Rightarrow> 'ev sse" where
  "cancelGraceElapsed s = s\<lparr> isCancellingRef := False \<rparr>"

definition sse_clearError :: "'ev sse \<Rightarrow> 'ev sse" where
  "sse_clearError s = s\<lparr> sse_error := None \<rparr>"

definition handleMessage ::
  "(string \<Rightarrow> 'ev option) \<Rightarrow> ('ev \<Rightarrow> bool) \<Rightarrow> string \<Rightarrow> 'ev sse \<Rightarrow> 'ev sse" where
  \<comment> \<open>\<open>parse\<close> is \<open>JSON.parse\<close>, \<open>None\<close> when it throws. \<open>handlerThrows\<close> tells for a
      parsed value whether handling it throws inside the \<open>try\<close>: the callback and the
      \<open>switch\<close> read properties of the value, which fails for the value \<open>null\<close> (the
      payload \<open>null\<close> parses). By then the value has been stored as the last event and
      passed to the callback; the \<open>catch\<close> stores the same error as for a payload that
      does not parse. A callback is taken to be registered: both orchestrators pass one. The
      branches of the \<open>switch\<close> are empty.\<close>
  "handleMessage parse handlerThrows data s =
     (case parse data of
        Some eventData \<Rightarrow>
          (let s1 = s\<lparr> lastEvent := Some eventData, delivered := delivered s @ [eventData] \<rparr>
           in if handlerThrows eventData
              then s1\<lparr> sse_error := Some ''Failed to parse SSE event data'' \<rparr> else s1)
      | None \<Rightarrow> s\<lparr> sse_error := Some ''Failed to parse SSE event data'' \<rparr>)"

definition SSE_THREAD :: "string \<Rightarrow> string" where
  "SSE_THREAD threadId = ''/playground/threads/v2/'' @ threadId"

definition connect_begin :: "string \<Rightarrow> string \<Rightarrow> 'ev sse \<Rightarrow> 'ev sse" where
  \<comment> \<open>\<open>connect\<close> up to its first \<open>await\<close>: everything that happens synchronously.\<close>
  "connect_begin endpoint threadId s =
     (if \<not> isValidThreadId threadId then
        s\<lparr> sse_error := Some ''Invalid thread ID format'', connectionState := Error \<rparr>
      else
        (let s1 = disconnect s;
             s2 = s1\<lparr> connectionState := Connecting, sse_error := None,
                       currentThreadIdRef := Some threadId \<rparr>
         in s2\<lparr> requests := requests s2 @ [endpoint @ SSE_THREAD threadId] \<rparr>))"

text \<open>What \<open>fetch\<close> settles with: a rejection, or a response (ok flag, rendered status line,
  whether a body is present).\<close>

datatype fetch_outcome = Rejected string | Response bool string bool

definition connect_response :: "fetch_outcome \<Rightarrow> 'ev sse \<Rightarrow> 'ev sse" where
  \<comment> \<open>\<open>connect\<close> from the settled \<open>fetch\<close> up to the start of \<open>readStream\<close>. The second
      component of \<open>Response\<close> is the text \<open>status: statusText\<close>.\<close>
  "connect_response outcome s =
     (let failed = (\<lambda>msg. if \<not> isCancellingRef s
                           then s\<lparr> sse_error := Some msg, connectionState := Error \<rparr> else s)
      in case outcome of
           Rejected msg \<Rightarrow> failed msg
         | Response ok status body \<Rightarrow>
             if \<not> ok then failed (''HTTP '' @ status)
             else if \<not> body then failed ''Response body is null''
             else (handleOpen s)\<lparr> readerRef := True \<rparr>)"

fun processLines ::
  "(string \<Rightarrow> 'ev option) \<Rightarrow> ('ev \<Rightarrow> bool) \<Rightarrow> string list \<Rightarrow> 'ev sse \<Rightarrow> 'ev sse" where
  \<comment> \<open>The \<open>for (const line of lines)\<close> loop of \<open>readStream\<close>; its \<open>break\<close> ends this loop.\<close>
  "processLines parse handlerThrows [] s = s"
| "processLines parse handlerThrows (line # rest) s =
     (let trimmedLine = trim line in
      if startsWith trimmedLine ''data: '' then
        (let data = drop 6 trimmedLine in
         if trim data \<noteq> [] then
           (if data = ''[DONE]'' then s\<lparr> connectionState := Disconnected \<rparr>
            else processLines parse handlerThrows rest
                   (handleMessage parse handlerThrows data s))
         else processLines parse handlerThrows rest s)
      else processLines parse handlerThrows rest s)"

text \<open>What one \<open>reader.read()\<close> settles with: a decoded chunk, the end of the stream, or a
  thrown error (name and message).\<close>

datatype read_result = Value string | Done | Throws string string

fun readStream ::
  "(string \<Rightarrow> 'ev option) \<Rightarrow> ('ev \<Rightarrow> bool) \<Rightarrow> read_result list \<Rightarrow> string \<Rightarrow> 'ev sse
     \<Rightarrow> 'ev sse" where
  \<comment> \<open>The \<open>while (true)\<close> loop over the reads that settle, with the text buffer. When the
      list is used up the next read is still pending and nothing more happens.\<close>
  "readStream parse handlerThrows [] buffer s = s"
| "readStream parse handlerThrows (Done # later) buffer s =
     (s\<lparr> connectionState := Disconnected \<rparr>)\<lparr> readerRef := False \<rparr>"
| "readStream parse handlerThrows (Throws name msg # later) buffer s =
     (if name \<noteq> ''AbortError'' \<and> \<not> isCancellingRef s
      then s\<lparr> sse_error := Some (''Stream reading error: '' @ msg), connectionState := Error \<rparr>
      else s)\<lparr> readerRef := False \<rparr>"
| "readStream parse handlerThrows (Value chunk # later) buffer s =
     (let lines = splitNewline (buffer @ chunk)
      in readStream parse handlerThrows later (last lines)
           (processLines parse handlerThrows (butlast lines) s))"

section \<open>Messages and streamed events (types)\<close>

datatype message_type = User | Assistant

record code_block =
  cb_id :: string
  cb_content :: string
  cb_streaming :: "bool option"

record query_plan =
  qp_id :: string
  qp_query :: string
  execution_time :: "int option"
  result_count :: "int option"

text \<open>
  The \<open>code_blocks\<close> object of a message, a plain object used as a map from code block
  ids to code blocks. \<open>own_blocks\<close> are its own properties (unique keys, in insertion
  order), the ones \<open>Object.keys\<close> counts. The key \<open>__proto__\<close> is special: assigning an
  object to it runs the prototype setter, which replaces the prototype of \<open>code_blocks\<close>
  and creates no own property, and reading it gives the prototype back. \<open>proto_block\<close> is
  the block assigned that way, if any. Every other key an object inherits holds no code
  block: reading its \<open>content\<close> gives \<open>undefined\<close>, and assigning to it creates an own
  property.
\<close>

record code_blocks_obj =
  own_blocks :: "(string \<times> code_block) list"
  proto_block :: "code_block option"

definition emptyBlocks :: code_blocks_obj where
  \<comment> \<open>The object literal \<open>{}\<close>.\<close>
  "emptyBlocks = \<lparr> own_blocks = [], proto_block = None \<rparr>"

definition getBlock :: "code_blocks_obj \<Rightarrow> string \<Rightarrow> code_block option" where
  \<comment> \<open>\<open>code_blocks[key]\<close>, as far as it is a code block.\<close>
  "getBlock obj key =
     (if key = ''__proto__'' then proto_block obj else map_of (own_blocks obj) key)"

definition setBlock :: "string \<Rightarrow> code_block \<Rightarrow> code_blocks_obj \<Rightarrow> code_blocks_obj" where
  \<comment> \<open>\<open>code_blocks[key] = block\<close>\<close>
  "setBlock key block obj =
     (if key = ''__proto__'' then obj\<lparr> proto_block := Some block \<rparr>
      else obj\<lparr> own_blocks := AList.update key block (own_blocks obj) \<rparr>)"

text \<open>
  A message is one object with a \<open>type\<close> tag; a user message has no \<open>query_plan\<close>,
  \<open>code_blocks\<close> or \<open>streaming\<close> property.
\<close>

record message =
  msg_id :: string
  msg_type :: message_type
  content :: string
  timestamp :: int
  query_plan :: "query_plan option"
  code_blocks :: "code_blocks_obj option"
  streaming :: "bool option"

text \<open>
  A parsed event. \<open>event_body\<close> holds the properties the handlers read, typed as the
  interfaces declare them; a property holding anything but a string is modelled as absent
  (the code only tests it for truthiness after the type declares it a string, or compares
  it with string constants). \<open>Nested b t\<close> is an object whose \<open>event\<close> property is the
  object \<open>b\<close>; \<open>Flat b t\<close> is an object carrying the properties itself, its \<open>event\<close>
  property being absent or the string \<open>ev_event b\<close>. \<open>t\<close> is the outer \<open>created_at\<close>.
\<close>

record event_body =
  ev_type :: "string option"
  ev_event :: "string option"
  message_chunk :: "string option"
  assistant_action_id :: "string option"
  query_plan_chunk :: "string option"
  code_block_id :: "string option"

datatype event_data = Flat event_body "int option" | Nested event_body "int option"

fun created_at_of :: "event_data \<Rightarrow> int option" where
  "created_at_of (Flat b t) = t"
| "created_at_of (Nested b t) = t"

fun event_of :: "event_data \<Rightarrow> event_body option" where
  \<comment> \<open>\<open>eventData.event || eventData\<close>; \<open>None\<close> when the result is a string, which has none
      of the properties read afterwards.\<close>
  "event_of (Nested b t) = Some b"
| "event_of (Flat b t) = (if truthy (ev_event b) then None else Some b)"

definition eventType_of :: "event_body \<Rightarrow> string option" where
  \<comment> \<open>\<open>event.type || event.event\<close>\<close>
  "eventType_of event = (if truthy (ev_type event) then ev_type event else ev_event event)"

section \<open>Conversation reducer (the updaters passed to setMessages)\<close>

definition orElse :: "string option \<Rightarrow> string \<Rightarrow> string" where
  \<comment> \<open>\<open>v || d\<close> for an optional string \<open>v\<close>.\<close>
  "orElse v d = (case v of None \<Rightarrow> d | Some s \<Rightarrow> if s \<noteq> [] then s else d)"

definition lastMessage_of :: "message list \<Rightarrow> message option" where
  \<comment> \<open>\<open>prevMessages[prevMessages.length - 1]\<close>, \<open>undefined\<close> on the empty list.\<close>
  "lastMessage_of prevMessages = (if prevMessages = [] then None else Some (last prevMessages))"

definition shouldCreateNewMessage :: "message list \<Rightarrow> bool" where
  "shouldCreateNewMessage prevMessages =
     (case lastMessage_of prevMessages of
        None \<Rightarrow> True
      | Some lastMessage \<Rightarrow>
          msg_type lastMessage \<noteq> Assistant \<or>
          (case code_blocks lastMessage of
             None \<Rightarrow> False | Some blocks \<Rightarrow> length (own_blocks blocks) > 0) \<or>
          query_plan lastMessage \<noteq> None)"

definition appendMessageChunk ::
  "int \<Rightarrow> string \<Rightarrow> int option \<Rightarrow> event_body \<Rightarrow> string \<Rightarrow> message list \<Rightarrow> message list" where
  \<comment> \<open>The updater of the \<open>assistant_action_message_appended\<close> branch. \<open>now\<close> is \<open>Date.now()\<close>
      and \<open>generated\<close> the fallback id (\<open>generateId()\<close> in the component, \<open>msg-\<close> and the
      clock in the hook).\<close>
  "appendMessageChunk now generated created_at event chunk prevMessages =
     (if shouldCreateNewMessage prevMessages then
        prevMessages @
          [\<lparr> msg_id = orElse (assistant_action_id event) generated,
             msg_type = Assistant,
             content = chunk,
             timestamp = (case created_at of Some t \<Rightarrow> t | None \<Rightarrow> now),
             query_plan = None, code_blocks = None, streaming = None \<rparr>]
      else
        butlast prevMessages @ [(last prevMessages)\<lparr> content := content (last prevMessages) @ chunk \<rparr>])"

definition appendQueryPlanChunk :: "string \<Rightarrow> string \<Rightarrow> message list \<Rightarrow> message list" where
  \<comment> \<open>The updater of the component's \<open>code_block_query_plan_appended\<close> branch. The
      source copies the last message shallowly and assigns into its \<open>code_blocks\<close> object;
      the model returns the resulting list.\<close>
  "appendQueryPlanChunk blockId newChunk prevMessages =
     (case lastMessage_of prevMessages of
        None \<Rightarrow> prevMessages
      | Some lastMessage \<Rightarrow>
          if msg_type lastMessage = Assistant then
            (let blocks = (case code_blocks lastMessage of None \<Rightarrow> emptyBlocks | Some bs \<Rightarrow> bs);
                 currentContent = (case getBlock blocks blockId of
                                     None \<Rightarrow> []
                                   | Some existingCodeBlock \<Rightarrow> cb_content existingCodeBlock);
                 updatedContent = (if \<not> endsWith currentContent newChunk
                                   then currentContent @ newChunk else currentContent);
                 updatedMessage = lastMessage\<lparr> code_blocks :=
                   Some (setBlock blockId
                          \<lparr> cb_id = blockId, cb_content = updatedContent, cb_streaming = Some True \<rparr>
                          blocks) \<rparr>
             in butlast prevMessages @ [updatedMessage])
          else prevMessages)"

section \<open>Thread persistence (hooks: useThreadPersistence)\<close>

text \<open>
  \<open>storageWorks\<close> tells whether calls of \<open>localStorage\<close> succeed (otherwise they throw);
  \<open>localStorage\<close> is the stored items.
\<close>

record persistence =
  currentThreadId :: "string option"
  storageWorks :: bool
  localStorage :: "string \<rightharpoonup> string"

definition createStorageKey :: "string \<Rightarrow> string" where
  "createStorageKey projectId = ''promptql-thread-'' @ projectId"

definition isStorageAvailable :: "persistence \<Rightarrow> bool \<times> persistence" where
  \<comment> \<open>Sets and removes the test item; false when that throws.\<close>
  "isStorageAvailable p =
     (if storageWorks p
      then (True, p\<lparr> localStorage := (localStorage p)(''__storage_test__'' := None) \<rparr>)
      else (False, p))"

definition loadThreadId :: "string \<Rightarrow> persistence \<Rightarrow> persistence" where
  \<comment> \<open>The effect run on mount.\<close>
  "loadThreadId storageKey p =
     (case isStorageAvailable p of
        (False, p1) \<Rightarrow> p1
      | (True, p1) \<Rightarrow>
          (case localStorage p1 storageKey of
             None \<Rightarrow> p1
           | Some storedThreadId \<Rightarrow>
               if storedThreadId \<noteq> [] \<and> isValidThreadId storedThreadId
               then p1\<lparr> currentThreadId := Some storedThreadId \<rparr> else p1))"

definition setCurrentThreadId :: "string \<Rightarrow> string option \<Rightarrow> persistence \<Rightarrow> persistence" where
  \<comment> \<open>\<open>if (threadId)\<close> is false for \<open>null\<close> and for the empty string.\<close>
  "setCurrentThreadId storageKey threadId p =
     (case isStorageAvailable (p\<lparr> currentThreadId := threadId \<rparr>) of
        (False, p1) \<Rightarrow> p1
      | (True, p1) \<Rightarrow>
          (case threadId of
             None \<Rightarrow> p1\<lparr> localStorage := (localStorage p1)(storageKey := None) \<rparr>
           | Some t \<Rightarrow>
               if t \<noteq> [] then
                 (if \<not> isValidThreadId t then p1
                  else p1\<lparr> localStorage := (localStorage p1)(storageKey \<mapsto> t) \<rparr>)
               else p1\<lparr> localStorage := (localStorage p1)(storageKey := None) \<rparr>))"

definition clearStoredThread :: "string \<Rightarrow> persistence \<Rightarrow> persistence" where
  "clearStoredThread storageKey p = setCurrentThreadId storageKey None p"

section \<open>Session orchestrators\<close>

text \<open>
  One record holds the state of an orchestrator and of the hooks it composes: the request
  client (\<open>api_isLoading\<close>, \<open>api_error\<close>, and \<open>api_calls\<close>, the requests it has
  issued), the streaming session and the thread persistence. The PromptQLChat component
  uses every field; the headless hook usePromptQLChat has no \<open>isCancelling\<close> and
  \<open>hasRecentlyCancelled\<close> state and its functions (prefixed \<open>hook_\<close>) leave them alone.
  An error is represented by its message.
\<close>

datatype api_call = StartThread string | ContinueThread string string | CancelThread string

record chat =
  messages :: "message list"
  isLoading :: bool
  chat_error :: "string option"
  isCancelling :: bool
  hasRecentlyCancelled :: bool
  isCodeExecuting :: bool
  api_isLoading :: bool
  api_error :: "string option"
  api_calls :: "api_call list"
  sse :: "event_data sse"
  threadPersistence :: persistence

definition storageKey :: string where
  "storageKey = createStorageKey ''promptql-chat''"

definition chat_initial :: chat where
  \<comment> \<open>The initial values of the state hooks, with working, empty storage.\<close>
  "chat_initial = \<lparr> messages = [], isLoading = False, chat_error = None, isCancelling = False,
     hasRecentlyCancelled = False, isCodeExecuting = False, api_isLoading = False,
     api_error = None, api_calls = [], sse = sse_initial,
     threadPersistence = \<lparr> currentThreadId = None, storageWorks = True,
                            localStorage = Map.empty \<rparr> \<rparr>"

subsection \<open>Event handling\<close>

definition handleSSEEvent :: "int \<Rightarrow> string \<Rightarrow> event_data \<Rightarrow> chat \<Rightarrow> chat" where
  \<comment> \<open>The component's callback. \<open>now\<close> and \<open>generated\<close> are \<open>Date.now()\<close> and
      \<open>generateId()\<close> at the time of the call.\<close>
  "handleSSEEvent now generated eventData c =
     (case event_of eventData of
        None \<Rightarrow> c
      | Some event \<Rightarrow>
          if eventType_of event = Some ''assistant_action_message_appended'' then
            (case message_chunk event of
               None \<Rightarrow> c
             | Some chunk \<Rightarrow>
                 if chunk \<noteq> [] then
                   c\<lparr> messages := appendMessageChunk now generated (created_at_of eventData)
                                     event chunk (messages c) \<rparr>
                 else c)
          else if eventType_of event = Some ''code_block_query_plan_appended'' then
            (let c1 = c\<lparr> isCodeExecuting := True \<rparr> in
             case (query_plan_chunk event, code_block_id event) of
               (Some chunk, Some blockId) \<Rightarrow>
                 if chunk \<noteq> [] \<and> blockId \<noteq> [] then
                   c1\<lparr> messages := appendQueryPlanChunk blockId chunk (messages c1) \<rparr>
                 else c1
             | _ \<Rightarrow> c1)
          else c)"

definition hook_handleSSEEvent :: "int \<Rightarrow> string \<Rightarrow> event_data \<Rightarrow> chat \<Rightarrow> chat" where
  \<comment> \<open>The headless hook's callback: a structured fragment only sets \<open>isCodeExecuting\<close>.\<close>
  "hook_handleSSEEvent now generated eventData c =
     (case event_of eventData of
        None \<Rightarrow> c
      | Some event \<Rightarrow>
          if eventType_of event = Some ''assistant_action_message_appended'' then
            (case message_chunk event of
               None \<Rightarrow> c
             | Some chunk \<Rightarrow>
                 if chunk \<noteq> [] then
                   c\<lparr> messages := appendMessageChunk now generated (created_at_of eventData)
                                     event chunk (messages c) \<rparr>
                 else c)
          else if eventType_of event = Some ''code_block_query_plan_appended'' then
            c\<lparr> isCodeExecuting := True \<rparr>
          else c)"

fun applyEvents :: "(int \<times> string \<times> event_data) list \<Rightarrow> chat \<Rightarrow> chat" where
  \<comment> \<open>The component's callback on a sequence of events in arrival order, each with the
      clock reading and the generated id of its call.\<close>
  "applyEvents [] c = c"
| "applyEvents ((now, generated, eventData) # rest) c =
     applyEvents rest (handleSSEEvent now generated eventData c)"

subsection \<open>Request client (hooks: usePromptQLAPI), as far as the orchestrators drive it\<close>

definition sanitizeUserInput :: "string \<Rightarrow> string" where
  "sanitizeUserInput input = take 10000 (trim input)"

text \<open>
  Each request function runs synchronously up to its \<open>fetch\<close>: the functions
  \<open>api_..._begin\<close>. A validation failure is thrown and caught before any \<open>await\<close>, so
  the client's error is set in the same step and no request is issued.
  \<open>api_settled\<close> is the client's \<open>catch\<close> and \<open>finally\<close> when the call settles
  (\<open>None\<close>: success).
\<close>

definition api_startThread_begin :: "string \<Rightarrow> chat \<Rightarrow> chat" where
  "api_startThread_begin message c =
     (let c1 = c\<lparr> api_isLoading := True, api_error := None \<rparr>;
          sanitizedMessage = sanitizeUserInput message
      in if sanitizedMessage = []
         then c1\<lparr> api_error := Some ''Message cannot be empty'', api_isLoading := False \<rparr>
         else c1\<lparr> api_calls := api_calls c1 @ [StartThread sanitizedMessage] \<rparr>)"

definition api_continueThread_begin :: "string \<Rightarrow> string \<Rightarrow> chat \<Rightarrow> chat" where
  "api_continueThread_begin threadId message c =
     (let c1 = c\<lparr> api_isLoading := True, api_error := None \<rparr>;
          sanitizedMessage = sanitizeUserInput message
      in if \<not> isValidThreadId threadId
         then c1\<lparr> api_error := Some ''Invalid thread ID format'', api_isLoading := False \<rparr>
         else if sanitizedMessage = []
         then c1\<lparr> api_error := Some ''Message cannot be empty'', api_isLoading := False \<rparr>
         else c1\<lparr> api_calls := api_calls c1 @ [ContinueThread threadId sanitizedMessage] \<rparr>)"

definition api_cancelThread_begin :: "string \<Rightarrow> chat \<Rightarrow> chat" where
  "api_cancelThread_begin threadId c =
     (let c1 = c\<lparr> api_isLoading := True, api_error := None \<rparr>
      in if \<not> isValidThreadId threadId
         then c1\<lparr> api_error := Some ''Invalid thread ID format'', api_isLoading := False \<rparr>
         else c1\<lparr> api_calls := api_calls c1 @ [CancelThread threadId] \<rparr>)"

definition api_settled :: "string option \<Rightarrow> chat \<Rightarrow> chat" where
  "api_settled failure c =
     (case failure of
        None \<Rightarrow> c\<lparr> api_isLoading := False \<rparr>
      | Some err \<Rightarrow> c\<lparr> api_error := Some err, api_isLoading := False \<rparr>)"

definition api_clearError :: "chat \<Rightarrow> chat" where
  "api_clearError c = c\<lparr> api_error := None \<rparr>"

subsection \<open>The PromptQLChat component\<close>

definition userMessage_of :: "int \<Rightarrow> string \<Rightarrow> string \<Rightarrow> message" where
  "userMessage_of now generated message =
     \<lparr> msg_id = generated, msg_type = User, content = trim message, timestamp = now,
       query_plan = None, code_blocks = None, streaming = None \<rparr>"

definition handleSendMessage_begin :: "int \<Rightarrow> string \<Rightarrow> string \<Rightarrow> chat \<Rightarrow> chat" where
  \<comment> \<open>\<open>handleSendMessage\<close> up to its \<open>await\<close>.\<close>
  "handleSendMessage_begin now generated message c =
     (if trim message = [] \<or> isLoading c then c
      else
        (let c1 = c\<lparr> isLoading := True, chat_error := None, hasRecentlyCancelled := False \<rparr>;
             c2 = c1\<lparr> messages := messages c1 @ [userMessage_of now generated message] \<rparr>
         in case currentThreadId (threadPersistence c2) of
              None \<Rightarrow> api_startThread_begin message c2
            | Some threadId \<Rightarrow>
                if threadId = [] then api_startThread_begin message c2
                else api_continueThread_begin threadId message c2))"

definition connectIfThread :: "string \<Rightarrow> string \<Rightarrow> chat \<Rightarrow> chat" where
  \<comment> \<open>\<open>if (threadId) sse.connect(threadId)\<close>, the synchronous part of \<open>connect\<close>.\<close>
  "connectIfThread endpoint threadId c =
     (if threadId \<noteq> [] then c\<lparr> sse := connect_begin endpoint threadId (sse c) \<rparr> else c)"

definition handleSendMessage_started :: "string \<Rightarrow> string \<Rightarrow> chat \<Rightarrow> chat" where
  \<comment> \<open>\<open>startThread\<close> has resolved with \<open>threadId\<close>.\<close>
  "handleSendMessage_started endpoint threadId c =
     (let c1 = api_settled None c;
          c2 = c1\<lparr> threadPersistence :=
                     setCurrentThreadId storageKey (Some threadId) (threadPersistence c1) \<rparr>
      in connectIfThread endpoint threadId c2)"

definition handleSendMessage_continued :: "string \<Rightarrow> string \<Rightarrow> chat \<Rightarrow> chat" where
  \<comment> \<open>\<open>continueThread\<close> has resolved; \<open>threadId\<close> is the id the call was made with.\<close>
  "handleSendMessage_continued endpoint threadId c =
     connectIfThread endpoint threadId (api_settled None c)"

definition handleSendMessage_failed :: "string \<Rightarrow> chat \<Rightarrow> chat" where
  \<comment> \<open>The start or continue call has failed with \<open>err\<close>.\<close>
  "handleSendMessage_failed err c =
     (api_settled (Some err) c)\<lparr> chat_error := Some err, isLoading := False \<rparr>"

definition handleCancelMessage_begin :: "chat \<Rightarrow> chat" where
  \<comment> \<open>\<open>handleCancelMessage\<close> up to its \<open>await\<close>.\<close>
  "handleCancelMessage_begin c =
     (let threadId = currentThreadId (threadPersistence c);
          c1 = c\<lparr> isCancelling := True, hasRecentlyCancelled := True \<rparr>;
          c2 = c1\<lparr> isLoading := False, chat_error := None \<rparr>;
          c3 = api_clearError c2;
          c4 = c3\<lparr> sse := sse_clearError (sse c3) \<rparr>;
          c5 = c4\<lparr> sse := disconnect (sse c4) \<rparr>
      in case threadId of
           None \<Rightarrow> c5
         | Some t \<Rightarrow> if t \<noteq> [] then api_cancelThread_begin t c5 else c5)"

definition handleCancelMessage_settled :: "string option \<Rightarrow> chat \<Rightarrow> chat" where
  \<comment> \<open>The cancel call has settled; a failure is only logged by the component.\<close>
  "handleCancelMessage_settled failure c = api_settled failure c"

definition handleCancelMessage_timer :: "chat \<Rightarrow> chat" where
  \<comment> \<open>The 3 second timer.\<close>
  "handleCancelMessage_timer c =
     (let c1 = c\<lparr> isCancelling := False, chat_error := None \<rparr>;
          c2 = api_clearError c1
      in c2\<lparr> sse := sse_clearError (sse c2) \<rparr>)"

subsection \<open>The headless hook usePromptQLChat\<close>

definition hook_sendMessage_begin :: "int \<Rightarrow> string \<Rightarrow> string \<Rightarrow> chat \<Rightarrow> chat" where
  \<comment> \<open>\<open>sendMessage\<close> up to its \<open>await\<close>; \<open>generated\<close> is \<open>user-\<close> and the clock.\<close>
  "hook_sendMessage_begin now generated message c =
     (if trim message = [] then c
      else
        (let c1 = c\<lparr> isLoading := True, chat_error := None \<rparr>;
             c2 = c1\<lparr> messages := messages c1 @ [userMessage_of now generated message] \<rparr>
         in case currentThreadId (threadPersistence c2) of
              None \<Rightarrow> api_startThread_begin message c2
            | Some threadId \<Rightarrow>
                if threadId = [] then api_startThread_begin message c2
                else api_continueThread_begin threadId message c2))"

definition hook_sendMessage_started :: "string \<Rightarrow> string \<Rightarrow> chat \<Rightarrow> chat" where
  "hook_sendMessage_started endpoint threadId c =
     (let c1 = api_settled None c;
          c2 = c1\<lparr> threadPersistence :=
                     setCurrentThreadId storageKey (Some threadId) (threadPersistence c1) \<rparr>
      in (connectIfThread endpoint threadId c2)\<lparr> isLoading := False \<rparr>)"

definition hook_sendMessage_continued :: "string \<Rightarrow> string \<Rightarrow> chat \<Rightarrow> chat" where
  "hook_sendMessage_continued endpoint threadId c =
     (connectIfThread endpoint threadId (api_settled None c))\<lparr> isLoading := False \<rparr>"

definition hook_sendMessage_failed :: "string \<Rightarrow> chat \<Rightarrow> chat" where
  "hook_sendMessage_failed err c =
     (api_settled (Some err) c)\<lparr> chat_error := Some err, isLoading := False \<rparr>"

definition hook_cancelMessage_begin :: "chat \<Rightarrow> chat" where
  \<comment> \<open>\<open>cancelMessage\<close> up to its \<open>await\<close>: only the cancel call is started.\<close>
  "hook_cancelMessage_begin c =
     (case currentThreadId (threadPersistence c) of
        None \<Rightarrow> c
      | Some threadId \<Rightarrow> if threadId = [] then c else api_cancelThread_begin threadId c)"

definition hook_cancelMessage_resolved :: "chat \<Rightarrow> chat" where
  "hook_cancelMessage_resolved c =
     (let c1 = api_settled None c;
          c2 = c1\<lparr> sse := disconnect (sse c1) \<rparr>
      in c2\<lparr> isLoading := False \<rparr>)"

definition hook_cancelMessage_rejected :: "string \<Rightarrow> chat \<Rightarrow> chat" where
  "hook_cancelMessage_rejected err c = (api_settled (Some err) c)\<lparr> chat_error := Some err \<rparr>"

section \<open>Thread rehydration (utils: convertThreadToMessages)\<close>

text \<open>
  A thread as received. An interaction comes in the internal format (\<open>assistant_messages\<close>)
  or in the API format (\<open>assistant_actions\<close>, and \<open>um_message\<close> for the user's text).
  For the values the types declare but the code still guards: an absent id is \<open>None\<close>, and
  a content that would be \<open>undefined\<close> is the empty string. \<open>gen\<close> is the supply of
  \<open>generateId()\<close> results, \<open>gen k\<close> being the result of call number \<open>k\<close>.
\<close>

record thread_user_message =
  um_id :: "string option"
  um_content :: "string option"
  um_message :: "string option"
  um_timestamp :: int

record thread_assistant_message =
  am_id :: "string option"
  am_content :: string
  am_timestamp :: int
  am_streaming :: "bool option"

record assistant_action =
  action_id :: "string option"
  action_message :: "string option"
  action_status :: string
  created_timestamp :: "int option"

record interaction =
  interaction_id :: string
  user_message :: "thread_user_message option"
  assistant_messages :: "thread_assistant_message list option"
  assistant_actions :: "assistant_action list option"
  completion_timestamp :: int
  created_at :: int

record thread =
  thread_id :: string
  interactions :: "interaction list"

definition userContent_of :: "thread_user_message \<Rightarrow> string" where
  \<comment> \<open>\<open>user_message.content || user_message?.message\<close>\<close>
  "userContent_of um =
     (if truthy (um_content um) then orElse (um_content um) []
      else (case um_message um of None \<Rightarrow> [] | Some m \<Rightarrow> m))"

definition idOrGenerated :: "(nat \<Rightarrow> string) \<Rightarrow> nat \<Rightarrow> string option \<Rightarrow> string \<times> nat" where
  \<comment> \<open>\<open>id || generateId()\<close>, with the number of calls of \<open>generateId\<close> so far.\<close>
  "idOrGenerated gen k v = (if truthy v then (orElse v [], k) else (gen k, Suc k))"

fun convertAssistantMessages ::
  "(nat \<Rightarrow> string) \<Rightarrow> nat \<Rightarrow> thread_assistant_message list \<Rightarrow> message list \<times> nat" where
  "convertAssistantMessages gen k [] = ([], k)"
| "convertAssistantMessages gen k (assistantMessage # rest) =
     (let (i, k1) = idOrGenerated gen k (am_id assistantMessage);
          m = \<lparr> msg_id = i, msg_type = Assistant, content = am_content assistantMessage,
                timestamp = am_timestamp assistantMessage, query_plan = None,
                code_blocks = None,
                streaming = Some (case am_streaming assistantMessage of
                                    None \<Rightarrow> False | Some b \<Rightarrow> b) \<rparr>;
          (ms, k2) = convertAssistantMessages gen k1 rest
      in (m # ms, k2))"

fun convertAssistantActions ::
  "(nat \<Rightarrow> string) \<Rightarrow> nat \<Rightarrow> int \<Rightarrow> assistant_action list \<Rightarrow> message list \<times> nat" where
  "convertAssistantActions gen k completion [] = ([], k)"
| "convertAssistantActions gen k completion (assistantAction # rest) =
     (if truthy (action_message assistantAction) \<and> action_status assistantAction = ''completed''
      then
        (let (i, k1) = idOrGenerated gen k (action_id assistantAction);
             m = \<lparr> msg_id = i, msg_type = Assistant,
                   content = orElse (action_message assistantAction) [],
                   timestamp = (case created_timestamp assistantAction of
                                  Some t \<Rightarrow> t | None \<Rightarrow> completion),
                   query_plan = None, code_blocks = None, streaming = Some False \<rparr>;
             (ms, k2) = convertAssistantActions gen k1 completion rest
         in (m # ms, k2))
      else convertAssistantActions gen k completion rest)"

definition convertInteraction ::
  "(nat \<Rightarrow> string) \<Rightarrow> nat \<Rightarrow> interaction \<Rightarrow> message list \<times> nat" where
  \<comment> \<open>The body of the loop over the sorted interactions.\<close>
  "convertInteraction gen k interaction =
     (let (us, k1) =
            (case user_message interaction of
               None \<Rightarrow> ([], k)
             | Some um \<Rightarrow>
                 (let (i, k') = idOrGenerated gen k (um_id um)
                  in ([\<lparr> msg_id = i, msg_type = User,
                          content = userContent_of um,
                          timestamp = um_timestamp um, query_plan = None,
                          code_blocks = None, streaming = None \<rparr>], k')));
          (ams, k2) =
            (case assistant_messages interaction of
               Some msgs \<Rightarrow> convertAssistantMessages gen k1 msgs
             | None \<Rightarrow>
                 (case assistant_actions interaction of
                    Some acts \<Rightarrow>
                      convertAssistantActions gen k1 (completion_timestamp interaction) acts
                  | None \<Rightarrow> ([], k1)))
      in (us @ ams, k2))"

fun convertInteractions ::
  "(nat \<Rightarrow> string) \<Rightarrow> nat \<Rightarrow> interaction list \<Rightarrow> message list" where
  "convertInteractions gen k [] = []"
| "convertInteractions gen k (interaction # rest) =
     (let (ms, k1) = convertInteraction gen k interaction
      in ms @ convertInteractions gen k1 rest)"

definition convertThreadToMessages :: "(nat \<Rightarrow> string) \<Rightarrow> thread \<Rightarrow> message list" where
  \<comment> \<open>\<open>Array.prototype.sort\<close> is stable, as \<open>sort_key\<close> is.\<close>
  "convertThreadToMessages gen thread =
     convertInteractions gen 0 (sort_key created_at (interactions thread))"

text \<open>The accumulated content of the code block \<open>k\<close> on the last message, if there
  is one: what the claims about a block's content observe.\<close>

definition blockContent :: "string \<Rightarrow> message list \<Rightarrow> string option" where
  "blockContent k ms =
     (case lastMessage_of ms of None \<Rightarrow> None
      | Some m \<Rightarrow> (case code_blocks m of None \<Rightarrow> None
                   | Some bs \<Rightarrow> map_option cb_content (getBlock bs k)))"

section \<open>Sample values\<close>

text \<open>
  Thread ids, stores and orchestrator states, events in the shape of the interfaces
  \<open>AssistantActionMessageAppendedEvent\<close> and \<open>CodeBlockQueryPlanAppendedEvent\<close>, nested
  under the \<open>event\<close> property, and the two interactions of the repository's test
  \<open>should handle multiple interactions in chronological order\<close> (dates in milliseconds).
  They are used in the examples only.
\<close>

definition validId :: string where
  \<comment> \<open>The valid id of the repository's test of \<open>isValidThreadId\<close>.\<close>
  "validId = ''123e4567-e89b-12d3-a456-426614174000''"

definition invalidId :: string where
  "invalidId = ''not-a-uuid''"

definition storage_sample :: "string option \<Rightarrow> (string \<rightharpoonup> string) \<Rightarrow> persistence" where
  "storage_sample threadId items =
     \<lparr> currentThreadId = threadId, storageWorks = True, localStorage = items \<rparr>"

definition chat_busy_sample :: chat where
  \<comment> \<open>A known thread, a send in progress and an error from before.\<close>
  "chat_busy_sample =
     chat_initial\<lparr> isLoading := True, chat_error := Some ''earlier failure'',
       threadPersistence := storage_sample (Some validId) Map.empty \<rparr>"

definition textChunkBody :: "string \<Rightarrow> string \<Rightarrow> event_body" where
  "textChunkBody actionId chunk =
     \<lparr> ev_type = Some ''assistant_action_message_appended'', ev_event = None,
       message_chunk = Some chunk, assistant_action_id = Some actionId,
       query_plan_chunk = None, code_block_id = None \<rparr>"

definition queryPlanChunkBody :: "string \<Rightarrow> string \<Rightarrow> string \<Rightarrow> event_body" where
  "queryPlanChunkBody actionId blockId chunk =
     \<lparr> ev_type = Some ''code_block_query_plan_appended'', ev_event = None,
       message_chunk = None, assistant_action_id = Some actionId,
       query_plan_chunk = Some chunk, code_block_id = Some blockId \<rparr>"

definition assistantMessage_sample :: "string \<Rightarrow> string \<Rightarrow> message" where
  "assistantMessage_sample i text =
     \<lparr> msg_id = i, msg_type = Assistant, content = text, timestamp = 0,
       query_plan = None, code_blocks = None, streaming = None \<rparr>"

definition interaction1 :: interaction where
  "interaction1 =
     \<lparr> interaction_id = ''interaction-1'',
       user_message = Some \<lparr> um_id = Some ''user-1'', um_content = Some ''First message'',
                              um_message = None, um_timestamp = 1704103200000 \<rparr>,
       assistant_messages = Some [\<lparr> am_id = Some ''assistant-1'', am_content = ''First response'',
                                    am_timestamp = 1704103260000, am_streaming = None \<rparr>],
       assistant_actions = None, completion_timestamp = 1704103260000,
       created_at = 1704103200000 \<rparr>"

definition interaction2 :: interaction where
  "interaction2 =
     \<lparr> interaction_id = ''interaction-2'',
       user_message = Some \<lparr> um_id = Some ''user-2'', um_content = Some ''Second message'',
                              um_message = None, um_timestamp = 1704103320000 \<rparr>,
       assistant_messages = Some [\<lparr> am_id = Some ''assistant-2'', am_content = ''Second response'',
                                    am_timestamp = 1704103380000, am_streaming = None \<rparr>],
       assistant_actions = None, completion_timestamp = 1704103380000,
       created_at = 1704103320000 \<rparr>"

section \<open>Thread id validation and connect\<close>

lemma hexGroup_Some:
  "hexGroup n s = Some r \<longleftrightarrow>
     (n \<le> length s \<and> list_all isHexDigit (take n s) \<and> r = drop n s)"
  by (induction n s rule: hexGroup.induct) auto

lemma hyphen_Some:
  "hyphen s = Some r \<longleftrightarrow> (Suc 0 \<le> length s \<and> s ! 0 = CHR ''-'' \<and> r = drop (Suc 0) s)"
  by (cases s) auto

text \<open>The matcher accepts exactly the strings of the positional format, in either case.\<close>

lemma isValidThreadId_format: "isValidThreadId t \<longleftrightarrow> hexThreadIdFormat t"
proof (cases "length t = 36")
  case True
  then show ?thesis
    unfolding isValidThreadId_def hexThreadIdFormat_def groupedFormat_def
    by (simp add: Option.bind_eq_Some_conv hexGroup_Some hyphen_Some cong: conj_cong)
next
  case False
  have "\<not> isValidThreadId t"
  proof
    assume "isValidThreadId t"
    then have "12 \<le> length t - 24 \<and> length t \<le> 36"
      unfolding isValidThreadId_def
      by (simp add: Option.bind_eq_Some_conv hexGroup_Some hyphen_Some cong: conj_cong)
    with False show False by arith
  qed
  with False show ?thesis
    by (simp add: hexThreadIdFormat_def groupedFormat_def)
qed

text \<open>
  C2, as stated, fails: a thread id written with uppercase hex letters does not match the
  lowercase format of the specification, yet \<open>connect\<close> accepts it, moves to
  \<open>connecting\<close> and issues the request.
\<close>

theorem connect_uppercase_id_counterexample:
  "\<not> specThreadIdFormat ''ABCDEF01-2345-6789-ABCD-EF0123456789'' \<and>
   connectionState (connect_begin ''/api'' ''ABCDEF01-2345-6789-ABCD-EF0123456789''
                      (sse_initial :: unit sse)) = Connecting \<and>
   requests (connect_begin ''/api'' ''ABCDEF01-2345-6789-ABCD-EF0123456789''
               (sse_initial :: unit sse))
     = [''/api/playground/threads/v2/ABCDEF01-2345-6789-ABCD-EF0123456789'']"
  by (simp add: isValidThreadId_format hexThreadIdFormat_def specThreadIdFormat_def
      groupedFormat_def isHexDigit_def isLowerHexDigit_def connect_begin_def disconnect_def
      sse_initial_def SSE_THREAD_def)

text \<open>
  C2, amended: for every thread id that does not match the 36-character 8-4-4-4-12
  hyphenated format of hex digits in either case (wrong length and missing hyphen
  included), the synchronous part of \<open>connect\<close> only stores the error
  \<open>Invalid thread ID format\<close> and moves to the error state; no request is issued.
\<close>

theorem connect_rejects_malformed_id:
  "\<not> hexThreadIdFormat threadId \<Longrightarrow>
     connect_begin endpoint threadId s
       = s\<lparr> sse_error := Some ''Invalid thread ID format'', connectionState := Error \<rparr> \<and>
     connectionState (connect_begin endpoint threadId s) = Error \<and>
     requests (connect_begin endpoint threadId s) = requests s"
  by (simp add: connect_begin_def isValidThreadId_format)

theorem connect_rejects_malformed_id_witness:
  "\<not> hexThreadIdFormat ''not-a-uuid'' \<and>
   \<not> hexThreadIdFormat ''123e4567e89b-12d3-a456-426614174000'' \<and>
   \<not> hexThreadIdFormat ''123e4567-e89b-12d3-a456-42661417400g'' \<and>
   connectionState (connect_begin ''/api'' ''not-a-uuid'' (sse_initial :: unit sse)) = Error \<and>
   requests (connect_begin ''/api'' ''not-a-uuid'' (sse_initial :: unit sse)) = []"
  using connect_rejects_malformed_id [of "''not-a-uuid''" "''/api''" "sse_initial :: unit sse"]
  by (simp add: hexThreadIdFormat_def groupedFormat_def isHexDigit_def sse_initial_def)

section \<open>Reading the stream\<close>

text \<open>
  A trimmed line that starts with the data prefix always has a payload that is not blank:
  the test \<open>if (data.trim())\<close> never fails.
\<close>

lemma trim_last_not_space: "trim s \<noteq> [] \<Longrightarrow> \<not> isWhiteSpace (last (trim s))"
proof -
  assume ne: "trim s \<noteq> []"
  let ?r = "dropWhile isWhiteSpace (rev (dropWhile isWhiteSpace s))"
  from ne have r: "?r \<noteq> []" by (simp add: trim_def)
  then have "\<not> isWhiteSpace (hd ?r)" by (rule hd_dropWhile)
  moreover have "last (trim s) = hd ?r" using r by (simp add: trim_def last_rev)
  ultimately show ?thesis by simp
qed

lemma trim_Nil_iff: "trim s = [] \<longleftrightarrow> (\<forall>c \<in> set s. isWhiteSpace c)"
proof
  assume "trim s = []"
  then have "dropWhile isWhiteSpace (rev (dropWhile isWhiteSpace s)) = []" by (simp add: trim_def)
  then have all: "\<forall>c \<in> set (dropWhile isWhiteSpace s). isWhiteSpace c"
    by simp
  have "dropWhile isWhiteSpace s = []"
  proof (rule ccontr)
    assume n: "dropWhile isWhiteSpace s \<noteq> []"
    then have "\<not> isWhiteSpace (hd (dropWhile isWhiteSpace s))" by (rule hd_dropWhile)
    moreover from n have "hd (dropWhile isWhiteSpace s) \<in> set (dropWhile isWhiteSpace s)" by simp
    ultimately show False using all by blast
  qed
  then show "\<forall>c \<in> set s. isWhiteSpace c" by simp
next
  assume "\<forall>c \<in> set s. isWhiteSpace c"
  then have d: "dropWhile isWhiteSpace s = []" by simp
  show "trim s = []" unfolding trim_def d by simp
qed

lemma data_payload_not_blank:
  assumes "startsWith (trim line) ''data: ''"
  shows "trim (drop 6 (trim line)) \<noteq> []"
proof
  let ?t = "trim line"
  assume blank: "trim (drop 6 ?t) = []"
  have six: "length ''data: '' = 6" by simp
  from assms have pre: "take 6 ?t = ''data: ''" unfolding startsWith_def six .
  then have ne: "?t \<noteq> []" by auto
  have t: "?t = ''data: '' @ drop 6 ?t" using pre by (metis append_take_drop_id)
  have "isWhiteSpace (last ?t)"
  proof (cases "drop 6 ?t = []")
    case True
    with t have "?t = ''data: ''" by simp
    then show ?thesis by (simp add: isWhiteSpace_def)
  next
    case False
    then have l: "last ?t = last (drop 6 ?t)" by (metis t last_appendR)
    have m: "last (drop 6 ?t) \<in> set (drop 6 ?t)" using False by (rule last_in_set)
    from blank have "\<forall>c \<in> set (drop 6 ?t). isWhiteSpace c" by (simp only: trim_Nil_iff)
    with m have "isWhiteSpace (last (drop 6 ?t))" by blast
    then show ?thesis by (simp only: l)
  qed
  with trim_last_not_space[OF ne] show False by simp
qed

text \<open>A \<open>[DONE]\<close> line marks the session disconnected and ends the loop over the lines of
  the current chunk: the lines after it in that chunk are not looked at.\<close>

lemma done_line_ends_batch:
  assumes "startsWith (trim line) ''data: ''" and "drop 6 (trim line) = ''[DONE]''"
  shows "processLines parse handlerThrows (line # rest) s
           = s\<lparr> connectionState := Disconnected \<rparr>"
  using assms by (simp add: trim_def isWhiteSpace_def)

text \<open>
  C3, as stated, fails: on an open stream a data line whose payload \<open>JSON.parse\<close> rejects
  leaves the session connected but stores the error \<open>Failed to parse SSE event data\<close>;
  the session's error does not stay null.
\<close>

theorem malformed_payload_sets_error_counterexample:
  "connectionState
     (readStream (\<lambda>d. None :: unit option) (\<lambda>v. False)
        [Value (''data: {oops'' @ [CHR 0x0A])] []
        (connect_response (Response True ''200 OK'' True)
           (connect_begin ''/api'' ''123e4567-e89b-12d3-a456-426614174000'' sse_initial)))
     = Connected \<and>
   sse_error
     (readStream (\<lambda>d. None :: unit option) (\<lambda>v. False)
        [Value (''data: {oops'' @ [CHR 0x0A])] []
        (connect_response (Response True ''200 OK'' True)
           (connect_begin ''/api'' ''123e4567-e89b-12d3-a456-426614174000'' sse_initial)))
     = Some ''Failed to parse SSE event data''"
  by (simp add: isValidThreadId_format hexThreadIdFormat_def groupedFormat_def isHexDigit_def
      connect_begin_def connect_response_def disconnect_def handleOpen_def sse_initial_def
      SSE_THREAD_def trim_def isWhiteSpace_def startsWith_def handleMessage_def)

text \<open>
  C3, amended: a data line whose payload is not the \<open>[DONE]\<close> sentinel and is rejected by
  \<open>JSON.parse\<close> is dropped and the stream goes on: the callback is not called and the
  last event is not replaced, the connection state is unchanged, and the remaining lines are
  processed as they would have been otherwise. The one trace it leaves is the session's
  error, set to \<open>Failed to parse SSE event data\<close>.
\<close>

theorem malformed_payload_skipped:
  assumes "startsWith (trim line) ''data: ''"
    and "drop 6 (trim line) \<noteq> ''[DONE]''"
    and "parse (drop 6 (trim line)) = None"
  shows "processLines parse handlerThrows (line # rest) s
           = processLines parse handlerThrows rest
               (s\<lparr> sse_error := Some ''Failed to parse SSE event data'' \<rparr>)"
  using assms data_payload_not_blank [of line] by (simp add: handleMessage_def)

theorem malformed_payload_skipped_witness:
  "startsWith (trim ''data: {oops'') ''data: '' \<and>
   drop 6 (trim ''data: {oops'') \<noteq> ''[DONE]'' \<and>
   (\<lambda>d. if d = ''{}'' then Some () else None) (drop 6 (trim ''data: {oops'')) = None \<and>
   processLines (\<lambda>d. if d = ''{}'' then Some () else None) (\<lambda>v. False)
     [''data: {oops'', ''data: {}'']
     ((sse_initial :: unit sse)\<lparr> connectionState := Connected, readerRef := True \<rparr>)
     = (sse_initial :: unit sse)\<lparr> connectionState := Connected, readerRef := True,
         sse_error := Some ''Failed to parse SSE event data'',
         lastEvent := Some (), delivered := [()] \<rparr>"
  using malformed_payload_skipped [of "''data: {oops''"
      "\<lambda>d. if d = ''{}'' then Some () else None" "\<lambda>v. False" "[''data: {}'']"
      "(sse_initial :: unit sse)\<lparr> connectionState := Connected, readerRef := True \<rparr>"]
  by (simp add: sse_initial_def trim_def isWhiteSpace_def startsWith_def handleMessage_def)

text \<open>
  A payload that parses to a value on which the handlers throw (the payload \<open>null\<close>) is
  stored as the last event and passed to the callback; it leaves the same error and the
  stream goes on as well.
\<close>

lemma throwing_payload_continues:
  assumes "startsWith (trim line) ''data: ''"
    and "drop 6 (trim line) \<noteq> ''[DONE]''"
    and "parse (drop 6 (trim line)) = Some v" and "handlerThrows v"
  shows "processLines parse handlerThrows (line # rest) s
           = processLines parse handlerThrows rest
               (s\<lparr> lastEvent := Some v, delivered := delivered s @ [v],
                   sse_error := Some ''Failed to parse SSE event data'' \<rparr>)"
  using assms data_payload_not_blank [of line] by (simp add: handleMessage_def)

text \<open>
  C7: the code does not do what the claim says. After a \<open>[DONE]\<close> line the session is
  marked disconnected, but the \<open>break\<close> leaves only the loop over the lines of the current
  chunk; the reading loop goes on, and an event in a later chunk is still parsed and handed
  to the callback.
\<close>

theorem events_after_done_are_delivered:
  "readStream (\<lambda>d. if d = ''{}'' then Some () else None) (\<lambda>v. False)
     [Value (''data: [DONE]'' @ [CHR 0x0A]), Value (''data: {}'' @ [CHR 0x0A])] []
     ((sse_initial :: unit sse)\<lparr> connectionState := Connected, readerRef := True \<rparr>)
   = (sse_initial :: unit sse)\<lparr> connectionState := Disconnected, readerRef := True,
       lastEvent := Some (), delivered := [()] \<rparr>"
  by (simp add: sse_initial_def trim_def isWhiteSpace_def startsWith_def handleMessage_def)

section \<open>The conversation reducer\<close>

lemma handle_text_chunk:
  assumes "event_of e = Some b"
    and "eventType_of b = Some ''assistant_action_message_appended''"
    and "message_chunk b = Some chunk" and "chunk \<noteq> []"
  shows "messages (handleSSEEvent n g e c)
           = appendMessageChunk n g (created_at_of e) b chunk (messages c)"
  using assms by (simp add: handleSSEEvent_def)

lemma handle_fragment:
  assumes "event_of e = Some b"
    and "eventType_of b = Some ''code_block_query_plan_appended''"
    and "query_plan_chunk b = Some chunk" and "code_block_id b = Some blockId"
  shows "messages (handleSSEEvent n g e c) =
           (if chunk \<noteq> [] \<and> blockId \<noteq> []
            then appendQueryPlanChunk blockId chunk (messages c) else messages c)"
  using assms by (simp add: handleSSEEvent_def)

lemma append_to_new:
  "shouldCreateNewMessage ms \<Longrightarrow>
     appendMessageChunk n g t b chunk ms = ms @
       [\<lparr> msg_id = orElse (assistant_action_id b) g, msg_type = Assistant, content = chunk,
          timestamp = (case t of Some t' \<Rightarrow> t' | None \<Rightarrow> n),
          query_plan = None, code_blocks = None, streaming = None \<rparr>]"
  by (simp add: appendMessageChunk_def)

lemma append_to_last:
  "\<not> shouldCreateNewMessage ms \<Longrightarrow>
     appendMessageChunk n g t b chunk ms
       = butlast ms @ [(last ms)\<lparr> content := content (last ms) @ chunk \<rparr>]"
  by (simp add: appendMessageChunk_def)

lemma plain_assistant_last:
  "msg_type m = Assistant \<Longrightarrow> code_blocks m = None \<Longrightarrow> query_plan m = None \<Longrightarrow>
     \<not> shouldCreateNewMessage (ms @ [m])"
  by (simp add: shouldCreateNewMessage_def lastMessage_of_def)

lemma not_create_last:
  "\<not> shouldCreateNewMessage ms \<Longrightarrow>
     \<not> shouldCreateNewMessage (butlast ms @ [(last ms)\<lparr> content := x \<rparr>])"
  by (simp add: shouldCreateNewMessage_def lastMessage_of_def split: if_splits option.splits)

text \<open>When a text chunk starts a new message, in the words of the specification.\<close>

lemma shouldCreateNewMessage_iff:
  "shouldCreateNewMessage ms \<longleftrightarrow>
     ms = [] \<or> msg_type (last ms) \<noteq> Assistant \<or>
     (\<exists>blocks. code_blocks (last ms) = Some blocks \<and> own_blocks blocks \<noteq> []) \<or>
     query_plan (last ms) \<noteq> None"
  by (auto simp: shouldCreateNewMessage_def lastMessage_of_def split: option.splits)

text \<open>
  C4, as stated, fails: when the last message is an assistant message without code blocks
  and without a query plan, the chunks \<open>Hello\<close> and \<open> world\<close> are both appended to that
  message and no new message is created.
\<close>

theorem text_chunks_extend_last_message_counterexample:
  "messages
     (applyEvents
        [(0, ''g1'', Nested (textChunkBody ''a1'' ''Hello'') None),
         (0, ''g2'', Nested (textChunkBody ''a1'' '' world'') None)]
        (chat_initial\<lparr> messages := [assistantMessage_sample ''a0'' ''Hi''] \<rparr>))
   = [assistantMessage_sample ''a0'' ''HiHello world'']"
  by (simp add: chat_initial_def handleSSEEvent_def eventType_of_def truthy_def
      appendMessageChunk_def shouldCreateNewMessage_def lastMessage_of_def
      textChunkBody_def assistantMessage_sample_def)

text \<open>
  C4, amended: let two text-chunk events carry the non-empty chunks \<open>a\<close> and \<open>b\<close> (for
  instance \<open>Hello\<close> and \<open> world\<close>), with nothing between them. When the first chunk starts a
  new message, that is, the list is empty, or its last message is not an assistant message,
  or is an assistant message carrying code blocks or a query plan, the result is the old list
  followed by exactly one new assistant message, whose content is \<open>a\<close> followed by \<open>b\<close>.
  Otherwise (the last message is an assistant message without code blocks and query plan)
  no message is created and both chunks are appended to the content of the last message.
\<close>

theorem text_chunks_one_message:
  assumes "event_of e1 = Some b1"
    and "eventType_of b1 = Some ''assistant_action_message_appended''"
    and "message_chunk b1 = Some a" and "a \<noteq> []"
    and "event_of e2 = Some b2"
    and "eventType_of b2 = Some ''assistant_action_message_appended''"
    and "message_chunk b2 = Some b" and "b \<noteq> []"
  shows "(shouldCreateNewMessage (messages c) \<longrightarrow>
            messages (applyEvents [(n1, g1, e1), (n2, g2, e2)] c) = messages c @
              [\<lparr> msg_id = orElse (assistant_action_id b1) g1, msg_type = Assistant,
                 content = a @ b,
                 timestamp = (case created_at_of e1 of Some t \<Rightarrow> t | None \<Rightarrow> n1),
                 query_plan = None, code_blocks = None, streaming = None \<rparr>]) \<and>
         (\<not> shouldCreateNewMessage (messages c) \<longrightarrow>
            messages (applyEvents [(n1, g1, e1), (n2, g2, e2)] c) = butlast (messages c) @
              [(last (messages c))\<lparr> content := content (last (messages c)) @ a @ b \<rparr>])"
proof (intro conjI impI)
  assume new: "shouldCreateNewMessage (messages c)"
  let ?m = "\<lparr> msg_id = orElse (assistant_action_id b1) g1, msg_type = Assistant,
               content = a,
               timestamp = (case created_at_of e1 of Some t \<Rightarrow> t | None \<Rightarrow> n1),
               query_plan = None, code_blocks = None, streaming = None \<rparr>"
  have first: "messages (handleSSEEvent n1 g1 e1 c) = messages c @ [?m]"
    using assms new by (simp add: handle_text_chunk append_to_new)
  have "\<not> shouldCreateNewMessage (messages c @ [?m])"
    by (rule plain_assistant_last) simp_all
  with first assms
  show "messages (applyEvents [(n1, g1, e1), (n2, g2, e2)] c) = messages c @
          [\<lparr> msg_id = orElse (assistant_action_id b1) g1, msg_type = Assistant,
             content = a @ b,
             timestamp = (case created_at_of e1 of Some t \<Rightarrow> t | None \<Rightarrow> n1),
             query_plan = None, code_blocks = None, streaming = None \<rparr>]"
    by (simp add: handle_text_chunk append_to_last)
next
  assume old: "\<not> shouldCreateNewMessage (messages c)"
  have first: "messages (handleSSEEvent n1 g1 e1 c) = butlast (messages c) @
                 [(last (messages c))\<lparr> content := content (last (messages c)) @ a \<rparr>]"
    using assms old by (simp add: handle_text_chunk append_to_last)
  have "\<not> shouldCreateNewMessage (butlast (messages c) @
          [(last (messages c))\<lparr> content := content (last (messages c)) @ a \<rparr>])"
    using old by (rule not_create_last)
  with first assms
  show "messages (applyEvents [(n1, g1, e1), (n2, g2, e2)] c) = butlast (messages c) @
          [(last (messages c))\<lparr> content := content (last (messages c)) @ a @ b \<rparr>]"
    by (simp add: handle_text_chunk append_to_last)
qed

theorem text_chunks_one_message_witness:
  "messages
     (applyEvents
        [(0, ''g1'', Nested (textChunkBody ''a1'' ''Hello'') (Some 5)),
         (1, ''g2'', Nested (textChunkBody ''a1'' '' world'') (Some 6))]
        chat_initial)
   = [\<lparr> msg_id = ''a1'', msg_type = Assistant, content = ''Hello world'', timestamp = 5,
        query_plan = None, code_blocks = None, streaming = None \<rparr>] \<and>
   messages
     (applyEvents
        [(0, ''g1'', Nested (textChunkBody ''a1'' ''Hello'') (Some 5)),
         (1, ''g2'', Nested (textChunkBody ''a1'' '' world'') (Some 6))]
        (chat_initial\<lparr> messages := [assistantMessage_sample ''a0'' ''Hi''] \<rparr>))
   = [assistantMessage_sample ''a0'' ''HiHello world'']"
  using
    text_chunks_one_message [of
      "Nested (textChunkBody ''a1'' ''Hello'') (Some 5)" "textChunkBody ''a1'' ''Hello''"
      "''Hello''"
      "Nested (textChunkBody ''a1'' '' world'') (Some 6)" "textChunkBody ''a1'' '' world''"
      "'' world''" chat_initial 0 "''g1''" 1 "''g2''"]
    text_chunks_one_message [of
      "Nested (textChunkBody ''a1'' ''Hello'') (Some 5)" "textChunkBody ''a1'' ''Hello''"
      "''Hello''"
      "Nested (textChunkBody ''a1'' '' world'') (Some 6)" "textChunkBody ''a1'' '' world''"
      "'' world''" "chat_initial\<lparr> messages := [assistantMessage_sample ''a0'' ''Hi''] \<rparr>"
      0 "''g1''" 1 "''g2''"]
  by (simp add: chat_initial_def eventType_of_def truthy_def orElse_def
      shouldCreateNewMessage_def lastMessage_of_def textChunkBody_def
      assistantMessage_sample_def)

lemma endsWith_append: "endsWith (s @ x) x"
  by (simp add: endsWith_def)

lemma endsWith_Nil_iff: "endsWith [] x \<longleftrightarrow> x = []"
  by (auto simp: endsWith_def)

lemma getBlock_setBlock: "getBlock (setBlock k v obj) k = Some v"
  by (simp add: getBlock_def setBlock_def update_conv')

lemma setBlock_twice: "setBlock k v (setBlock k v' obj) = setBlock k v obj"
  by (simp add: setBlock_def)

lemma fragment_on_assistant:
  assumes "msg_type m = Assistant"
  shows "appendQueryPlanChunk k x (ms @ [m]) = ms @
     [m\<lparr> code_blocks := Some (setBlock k
          \<lparr> cb_id = k,
            cb_content =
              (let cur = (case getBlock
                                 (case code_blocks m of None \<Rightarrow> emptyBlocks | Some bs \<Rightarrow> bs) k of
                            None \<Rightarrow> [] | Some blk \<Rightarrow> cb_content blk)
               in if \<not> endsWith cur x then cur @ x else cur),
            cb_streaming = Some True \<rparr>
          (case code_blocks m of None \<Rightarrow> emptyBlocks | Some bs \<Rightarrow> bs)) \<rparr>]"
  using assms by (simp add: appendQueryPlanChunk_def lastMessage_of_def Let_def)

lemma fragment_not_assistant:
  "ms = [] \<or> msg_type (last ms) \<noteq> Assistant \<Longrightarrow> appendQueryPlanChunk k x ms = ms"
  by (auto simp: appendQueryPlanChunk_def lastMessage_of_def)

lemma appendQueryPlanChunk_idem:
  "appendQueryPlanChunk k x (appendQueryPlanChunk k x ms) = appendQueryPlanChunk k x ms"
proof (cases "ms = [] \<or> msg_type (last ms) \<noteq> Assistant")
  case True
  then show ?thesis by (simp add: fragment_not_assistant)
next
  case False
  then obtain pre m where ms: "ms = pre @ [m]" and m: "msg_type m = Assistant"
    by (metis append_butlast_last_id)
  show ?thesis
    unfolding ms using m
    by (simp add: fragment_on_assistant endsWith_append getBlock_setBlock setBlock_twice
        Let_def)
qed

text \<open>
  C5: a text chunk that starts an assistant message, then a structured fragment that
  attaches a code block to that message (non-empty chunk, and a non-empty code block id
  other than \<open>__proto__\<close>, the one key under which the assignment adds no entry to the
  code-blocks map), then another text chunk: the component's reducer ends with exactly two
  new assistant messages. The first carries the first chunk and the code block, the second
  carries the third event's chunk, which was not merged into the first.
\<close>

theorem chunk_after_fragment_starts_new_message:
  assumes "shouldCreateNewMessage (messages c)"
    and "event_of e1 = Some b1"
    and "eventType_of b1 = Some ''assistant_action_message_appended''"
    and "message_chunk b1 = Some a" and "a \<noteq> []"
    and "event_of e2 = Some b2"
    and "eventType_of b2 = Some ''code_block_query_plan_appended''"
    and "query_plan_chunk b2 = Some q" and "q \<noteq> []"
    and "code_block_id b2 = Some k" and "k \<noteq> []" and "k \<noteq> ''__proto__''"
    and "event_of e3 = Some b3"
    and "eventType_of b3 = Some ''assistant_action_message_appended''"
    and "message_chunk b3 = Some b" and "b \<noteq> []"
  shows "messages (applyEvents [(n1, g1, e1), (n2, g2, e2), (n3, g3, e3)] c) = messages c @
           [\<lparr> msg_id = orElse (assistant_action_id b1) g1, msg_type = Assistant, content = a,
              timestamp = (case created_at_of e1 of Some t \<Rightarrow> t | None \<Rightarrow> n1),
              query_plan = None,
              code_blocks = Some \<lparr> own_blocks =
                  [(k, \<lparr> cb_id = k, cb_content = q, cb_streaming = Some True \<rparr>)],
                proto_block = None \<rparr>,
              streaming = None \<rparr>,
            \<lparr> msg_id = orElse (assistant_action_id b3) g3, msg_type = Assistant, content = b,
              timestamp = (case created_at_of e3 of Some t \<Rightarrow> t | None \<Rightarrow> n3),
              query_plan = None, code_blocks = None, streaming = None \<rparr>]"
proof -
  let ?m1 = "\<lparr> msg_id = orElse (assistant_action_id b1) g1, msg_type = Assistant, content = a,
              timestamp = (case created_at_of e1 of Some t \<Rightarrow> t | None \<Rightarrow> n1),
              query_plan = None, code_blocks = None, streaming = None \<rparr>"
  let ?blocks = "\<lparr> own_blocks = [(k, \<lparr> cb_id = k, cb_content = q, cb_streaming = Some True \<rparr>)],
                  proto_block = None \<rparr>"
  let ?c1 = "handleSSEEvent n1 g1 e1 c"
  let ?c2 = "handleSSEEvent n2 g2 e2 ?c1"
  have 1: "messages ?c1 = messages c @ [?m1]"
    using assms by (simp add: handle_text_chunk append_to_new)
  have 2: "messages ?c2 = messages c @ [?m1\<lparr> code_blocks := Some ?blocks \<rparr>]"
    using assms 1
    by (simp add: handle_fragment fragment_on_assistant endsWith_Nil_iff getBlock_def
        setBlock_def emptyBlocks_def)
  have 3: "shouldCreateNewMessage (messages ?c2)"
    unfolding 2 by (simp add: shouldCreateNewMessage_def lastMessage_of_def)
  have "messages (handleSSEEvent n3 g3 e3 ?c2) = messages ?c2 @
     [\<lparr> msg_id = orElse (assistant_action_id b3) g3, msg_type = Assistant, content = b,
              timestamp = (case created_at_of e3 of Some t \<Rightarrow> t | None \<Rightarrow> n3),
              query_plan = None, code_blocks = None, streaming = None \<rparr>]"
    using assms 3 by (simp add: handle_text_chunk append_to_new)
  then show ?thesis
    unfolding 2 by simp
qed

theorem chunk_after_fragment_starts_new_message_witness:
  "shouldCreateNewMessage (messages chat_initial) \<and> ''cb1'' \<noteq> ''__proto__'' \<and>
   messages
     (applyEvents
        [(0, ''g1'', Nested (textChunkBody ''a1'' ''Let me check'') None),
         (1, ''g2'', Nested (queryPlanChunkBody ''a1'' ''cb1'' ''SELECT 1'') None),
         (2, ''g3'', Nested (textChunkBody ''a2'' ''Done'') None)]
        chat_initial)
   = [\<lparr> msg_id = ''a1'', msg_type = Assistant, content = ''Let me check'', timestamp = 0,
        query_plan = None,
        code_blocks = Some \<lparr> own_blocks =
            [(''cb1'', \<lparr> cb_id = ''cb1'', cb_content = ''SELECT 1'',
                         cb_streaming = Some True \<rparr>)],
          proto_block = None \<rparr>,
        streaming = None \<rparr>,
      \<lparr> msg_id = ''a2'', msg_type = Assistant, content = ''Done'', timestamp = 2,
        query_plan = None, code_blocks = None, streaming = None \<rparr>]"
  using chunk_after_fragment_starts_new_message [of chat_initial
      "Nested (textChunkBody ''a1'' ''Let me check'') None"
      "textChunkBody ''a1'' ''Let me check''" "''Let me check''"
      "Nested (queryPlanChunkBody ''a1'' ''cb1'' ''SELECT 1'') None"
      "queryPlanChunkBody ''a1'' ''cb1'' ''SELECT 1''" "''SELECT 1''" "''cb1''"
      "Nested (textChunkBody ''a2'' ''Done'') None"
      "textChunkBody ''a2'' ''Done''" "''Done''" 0 "''g1''" 1 "''g2''" 2 "''g3''"]
  by (simp add: chat_initial_def eventType_of_def truthy_def orElse_def
      shouldCreateNewMessage_def lastMessage_of_def textChunkBody_def queryPlanChunkBody_def)

text \<open>
  Under the key \<open>__proto__\<close> the fragment becomes the prototype of the code-blocks object
  and adds no entry to it, so the text chunk that follows is merged into the first message.
\<close>

lemma chunk_after_proto_fragment_is_merged:
  assumes "shouldCreateNewMessage (messages c)"
    and "event_of e1 = Some b1"
    and "eventType_of b1 = Some ''assistant_action_message_appended''"
    and "message_chunk b1 = Some a" and "a \<noteq> []"
    and "event_of e2 = Some b2"
    and "eventType_of b2 = Some ''code_block_query_plan_appended''"
    and "query_plan_chunk b2 = Some q" and "q \<noteq> []"
    and "code_block_id b2 = Some ''__proto__''"
    and "event_of e3 = Some b3"
    and "eventType_of b3 = Some ''assistant_action_message_appended''"
    and "message_chunk b3 = Some b" and "b \<noteq> []"
  shows "messages (applyEvents [(n1, g1, e1), (n2, g2, e2), (n3, g3, e3)] c) = messages c @
           [\<lparr> msg_id = orElse (assistant_action_id b1) g1, msg_type = Assistant,
              content = a @ b,
              timestamp = (case created_at_of e1 of Some t \<Rightarrow> t | None \<Rightarrow> n1),
              query_plan = None,
              code_blocks = Some \<lparr> own_blocks = [],
                proto_block = Some \<lparr> cb_id = ''__proto__'', cb_content = q,
                                     cb_streaming = Some True \<rparr> \<rparr>,
              streaming = None \<rparr>]"
proof -
  let ?m1 = "\<lparr> msg_id = orElse (assistant_action_id b1) g1, msg_type = Assistant, content = a,
              timestamp = (case created_at_of e1 of Some t \<Rightarrow> t | None \<Rightarrow> n1),
              query_plan = None, code_blocks = None, streaming = None \<rparr>"
  let ?blocks = "\<lparr> own_blocks = [],
                  proto_block = Some \<lparr> cb_id = ''__proto__'', cb_content = q,
                                       cb_streaming = Some True \<rparr> \<rparr>"
  let ?c1 = "handleSSEEvent n1 g1 e1 c"
  let ?c2 = "handleSSEEvent n2 g2 e2 ?c1"
  have 1: "messages ?c1 = messages c @ [?m1]"
    using assms by (simp add: handle_text_chunk append_to_new)
  have 2: "messages ?c2 = messages c @ [?m1\<lparr> code_blocks := Some ?blocks \<rparr>]"
    using assms 1
    by (simp add: handle_fragment fragment_on_assistant endsWith_Nil_iff getBlock_def
        setBlock_def emptyBlocks_def)
  have 3: "\<not> shouldCreateNewMessage (messages ?c2)"
    unfolding 2 by (simp add: shouldCreateNewMessage_def lastMessage_of_def)
  have "messages (handleSSEEvent n3 g3 e3 ?c2)
          = butlast (messages ?c2) @
              [(last (messages ?c2))\<lparr> content := content (last (messages ?c2)) @ b \<rparr>]"
    using assms 3 by (simp add: handle_text_chunk append_to_last)
  then show ?thesis
    unfolding 2 by simp
qed

text \<open>The headless hook's callback attaches nothing on a structured fragment, so there a
  text chunk that follows is merged into the message before it.\<close>

lemma hook_fragment_keeps_messages:
  assumes "event_of e = Some b"
    and "eventType_of b = Some ''code_block_query_plan_appended''"
  shows "messages (hook_handleSSEEvent n g e c) = messages c"
  using assms by (simp add: hook_handleSSEEvent_def)

text \<open>
  C6: a structured fragment carrying \<open>x\<close> for the code block \<open>k\<close>, applied when the last
  message is an assistant message whose block \<open>k\<close> has a content \<open>cur\<close> ending in \<open>x\<close>,
  leaves that content unchanged; and handling the same structured-fragment event a second
  time changes nothing at all, whatever the state.
\<close>

theorem fragment_redelivery_idempotent:
  assumes "event_of e = Some b"
    and "eventType_of b = Some ''code_block_query_plan_appended''"
    and "query_plan_chunk b = Some x" and "code_block_id b = Some k"
  shows "(messages c \<noteq> [] \<and> msg_type (last (messages c)) = Assistant \<and>
          blockContent k (messages c) = Some cur \<and> endsWith cur x \<longrightarrow>
            blockContent k (messages (handleSSEEvent n g e c)) = Some cur) \<and>
         handleSSEEvent n' g' e (handleSSEEvent n g e c) = handleSSEEvent n g e c"
proof (intro conjI impI)
  assume h: "messages c \<noteq> [] \<and> msg_type (last (messages c)) = Assistant \<and>
          blockContent k (messages c) = Some cur \<and> endsWith cur x"
  then obtain pre m where ms: "messages c = pre @ [m]" and m: "msg_type m = Assistant"
    by (metis append_butlast_last_id)
  from h ms obtain bs blk
    where bs: "code_blocks m = Some bs" "getBlock bs k = Some blk" "cb_content blk = cur"
    by (auto simp: blockContent_def lastMessage_of_def split: option.splits)
  from h have ew: "endsWith cur x" by simp
  show "blockContent k (messages (handleSSEEvent n g e c)) = Some cur"
    using assms ms m bs ew
    by (simp add: handle_fragment fragment_on_assistant blockContent_def lastMessage_of_def
        getBlock_setBlock)
next
  show "handleSSEEvent n' g' e (handleSSEEvent n g e c) = handleSSEEvent n g e c"
    using assms by (simp add: handleSSEEvent_def Let_def appendQueryPlanChunk_idem)
qed

theorem fragment_redelivery_idempotent_witness:
  "endsWith ''SELECT 1'' ''1'' \<and>
   blockContent ''cb1''
     (messages
        (handleSSEEvent 0 ''g'' (Nested (queryPlanChunkBody ''a1'' ''cb1'' ''1'') None)
           (chat_initial\<lparr> messages :=
              [(assistantMessage_sample ''a1'' ''Let me check'')\<lparr> code_blocks :=
                  Some \<lparr> own_blocks =
                                    [(''cb1'', \<lparr> cb_id = ''cb1'', cb_content = ''SELECT 1'',
                                               cb_streaming = Some True \<rparr>)],
                                    proto_block = None \<rparr> \<rparr>] \<rparr>)))
     = Some ''SELECT 1'' \<and>
   handleSSEEvent 1 ''h'' (Nested (queryPlanChunkBody ''a1'' ''cb1'' ''1'') None)
     (handleSSEEvent 0 ''g'' (Nested (queryPlanChunkBody ''a1'' ''cb1'' ''1'') None)
        (chat_initial\<lparr> messages :=
           [(assistantMessage_sample ''a1'' ''Let me check'')\<lparr> code_blocks :=
               Some \<lparr> own_blocks =
                                 [(''cb1'', \<lparr> cb_id = ''cb1'', cb_content = ''SELECT 1'',
                                            cb_streaming = Some True \<rparr>)],
                                 proto_block = None \<rparr> \<rparr>] \<rparr>))
     = handleSSEEvent 0 ''g'' (Nested (queryPlanChunkBody ''a1'' ''cb1'' ''1'') None)
         (chat_initial\<lparr> messages :=
            [(assistantMessage_sample ''a1'' ''Let me check'')\<lparr> code_blocks :=
                Some \<lparr> own_blocks =
                                  [(''cb1'', \<lparr> cb_id = ''cb1'', cb_content = ''SELECT 1'',
                                             cb_streaming = Some True \<rparr>)],
                                  proto_block = None \<rparr> \<rparr>] \<rparr>)"
  using fragment_redelivery_idempotent [of
      "Nested (queryPlanChunkBody ''a1'' ''cb1'' ''1'') None"
      "queryPlanChunkBody ''a1'' ''cb1'' ''1''" "''1''" "''cb1''"
      "chat_initial\<lparr> messages :=
         [(assistantMessage_sample ''a1'' ''Let me check'')\<lparr> code_blocks :=
             Some \<lparr> own_blocks =
                               [(''cb1'', \<lparr> cb_id = ''cb1'', cb_content = ''SELECT 1'',
                                          cb_streaming = Some True \<rparr>)],
                               proto_block = None \<rparr> \<rparr>] \<rparr>"
      "''SELECT 1''" 0 "''g''" 1 "''h''"]
  by (simp add: chat_initial_def eventType_of_def truthy_def blockContent_def
      lastMessage_of_def endsWith_def queryPlanChunkBody_def assistantMessage_sample_def
      getBlock_def)

section \<open>Thread rehydration\<close>

lemma sort_two:
  "created_at a < created_at b \<Longrightarrow> xs = [a, b] \<or> xs = [b, a] \<Longrightarrow> sort_key created_at xs = [a, b]"
  by auto

lemma convertInteraction_internal:
  assumes "user_message a = Some ua" and "assistant_messages a = Some [ma]"
  shows "map (\<lambda>m. (msg_type m, content m, timestamp m)) (fst (convertInteraction gen k a))
           = [(User, userContent_of ua, um_timestamp ua), (Assistant, am_content ma, am_timestamp ma)]"
  using assms
  by (simp add: convertInteraction_def idOrGenerated_def Let_def split: prod.splits)

text \<open>
  C8, as stated, fails: when the two interactions have the same \<open>created_at\<close> the stable
  sort keeps them in input order, so the two orders of the input give different results.
\<close>

theorem rehydration_tie_counterexample:
  "map content
     (convertThreadToMessages (\<lambda>k. ''generated'')
        \<lparr> thread_id = ''thread-1'',
          interactions = [interaction1, interaction2\<lparr> created_at := 1704103200000 \<rparr>] \<rparr>)
     = [''First message'', ''First response'', ''Second message'', ''Second response''] \<and>
   map content
     (convertThreadToMessages (\<lambda>k. ''generated'')
        \<lparr> thread_id = ''thread-1'',
          interactions = [interaction2\<lparr> created_at := 1704103200000 \<rparr>, interaction1] \<rparr>)
     = [''Second message'', ''Second response'', ''First message'', ''First response'']"
  by (simp add: convertThreadToMessages_def convertInteraction_def idOrGenerated_def
      userContent_of_def truthy_def orElse_def interaction1_def interaction2_def)

text \<open>
  C8, amended: for a thread with two interactions \<open>a\<close> and \<open>b\<close>, each holding one user
  message and one assistant message, \<open>a\<close> created strictly before \<open>b\<close>, both orders of the
  interactions array give the same result: the messages of \<open>a\<close> followed by those of \<open>b\<close>,
  four in all, each interaction contributing its user message and then its assistant
  message.
\<close>

theorem rehydration_chronological:
  assumes "user_message a = Some ua" and "assistant_messages a = Some [ma]"
    and "user_message b = Some ub" and "assistant_messages b = Some [mb]"
    and "created_at a < created_at b"
    and "xs = [a, b] \<or> xs = [b, a]"
  shows "convertThreadToMessages gen (t\<lparr> interactions := xs \<rparr>) = convertInteractions gen 0 [a, b] \<and>
         map (\<lambda>m. (msg_type m, content m, timestamp m)) (convertInteractions gen 0 [a, b])
           = [(User, userContent_of ua, um_timestamp ua), (Assistant, am_content ma, am_timestamp ma),
              (User, userContent_of ub, um_timestamp ub), (Assistant, am_content mb, am_timestamp mb)]"
proof
  show "convertThreadToMessages gen (t\<lparr> interactions := xs \<rparr>) = convertInteractions gen 0 [a, b]"
    using assms(5,6) by (simp add: convertThreadToMessages_def sort_two)
next
  obtain ms1 k1 where 1: "convertInteraction gen 0 a = (ms1, k1)" by (cases "convertInteraction gen 0 a")
  obtain ms2 k2 where 2: "convertInteraction gen k1 b = (ms2, k2)" by (cases "convertInteraction gen k1 b")
  from convertInteraction_internal[OF assms(1,2), of gen 0] 1
  have m1: "map (\<lambda>m. (msg_type m, content m, timestamp m)) ms1 = [(User, userContent_of ua, um_timestamp ua), (Assistant, am_content ma, am_timestamp ma)]" by simp
  from convertInteraction_internal[OF assms(3,4), of gen k1] 2
  have m2: "map (\<lambda>m. (msg_type m, content m, timestamp m)) ms2 = [(User, userContent_of ub, um_timestamp ub), (Assistant, am_content mb, am_timestamp mb)]" by simp
  show "map (\<lambda>m. (msg_type m, content m, timestamp m)) (convertInteractions gen 0 [a, b])
           = [(User, userContent_of ua, um_timestamp ua), (Assistant, am_content ma, am_timestamp ma),
              (User, userContent_of ub, um_timestamp ub), (Assistant, am_content mb, am_timestamp mb)]"
    using 1 2 m1 m2 by simp
qed

theorem rehydration_chronological_witness:
  "convertThreadToMessages (\<lambda>k. ''generated'')
     \<lparr> thread_id = ''thread-1'', interactions = [interaction2, interaction1] \<rparr>
   = convertThreadToMessages (\<lambda>k. ''generated'')
       \<lparr> thread_id = ''thread-1'', interactions = [interaction1, interaction2] \<rparr> \<and>
   map (\<lambda>m. (msg_type m, content m, timestamp m))
     (convertThreadToMessages (\<lambda>k. ''generated'')
        \<lparr> thread_id = ''thread-1'', interactions = [interaction2, interaction1] \<rparr>)
   = [(User, ''First message'', 1704103200000), (Assistant, ''First response'', 1704103260000),
      (User, ''Second message'', 1704103320000),
      (Assistant, ''Second response'', 1704103380000)]"
  using
    rehydration_chronological [of interaction1
      "\<lparr> um_id = Some ''user-1'', um_content = Some ''First message'', um_message = None,
         um_timestamp = 1704103200000 \<rparr>"
      "\<lparr> am_id = Some ''assistant-1'', am_content = ''First response'',
         am_timestamp = 1704103260000, am_streaming = None \<rparr>"
      interaction2
      "\<lparr> um_id = Some ''user-2'', um_content = Some ''Second message'', um_message = None,
         um_timestamp = 1704103320000 \<rparr>"
      "\<lparr> am_id = Some ''assistant-2'', am_content = ''Second response'',
         am_timestamp = 1704103380000, am_streaming = None \<rparr>"
      "[interaction2, interaction1]" "\<lambda>k. ''generated''"
      "\<lparr> thread_id = ''thread-1'', interactions = [] \<rparr>"]
    rehydration_chronological [of interaction1
      "\<lparr> um_id = Some ''user-1'', um_content = Some ''First message'', um_message = None,
         um_timestamp = 1704103200000 \<rparr>"
      "\<lparr> am_id = Some ''assistant-1'', am_content = ''First response'',
         am_timestamp = 1704103260000, am_streaming = None \<rparr>"
      interaction2
      "\<lparr> um_id = Some ''user-2'', um_content = Some ''Second message'', um_message = None,
         um_timestamp = 1704103320000 \<rparr>"
      "\<lparr> am_id = Some ''assistant-2'', am_content = ''Second response'',
         am_timestamp = 1704103380000, am_streaming = None \<rparr>"
      "[interaction1, interaction2]" "\<lambda>k. ''generated''"
      "\<lparr> thread_id = ''thread-1'', interactions = [] \<rparr>"]
  by (simp add: userContent_of_def truthy_def orElse_def interaction1_def interaction2_def)

section \<open>Sending a message\<close>

lemma api_begin_messages:
  "messages (api_startThread_begin m c) = messages c"
  "messages (api_continueThread_begin t m c) = messages c"
  "messages (api_cancelThread_begin t c) = messages c"
  "messages (api_settled f c) = messages c"
  by (simp_all add: api_startThread_begin_def api_continueThread_begin_def
      api_cancelThread_begin_def api_settled_def Let_def split: option.splits)

text \<open>
  The component's \<open>handleSendMessage\<close> refuses a send while one is loading: nothing
  changes. Its input is disabled in that state, so the call is not made then.
\<close>

lemma send_refused_while_loading:
  "isLoading c \<Longrightarrow> handleSendMessage_begin now generated message c = c"
  by (simp add: handleSendMessage_begin_def)

text \<open>
  C9: for every text that is not empty after trimming, a send that is accepted (the hook
  accepts every such send; the component accepts it when no send is already loading, which
  is when its input lets a send through) appends in its synchronous part, before any
  response to the start or continue call, exactly one user message at the end of the list,
  whose content is the trimmed text; the failure of the start or continue call leaves the
  list, with that message, as it is.
\<close>

theorem send_appends_optimistic_message:
  assumes "trim message \<noteq> []"
  shows "(\<not> isLoading c \<longrightarrow>
            messages (handleSendMessage_begin now generated message c)
              = messages c @ [userMessage_of now generated message] \<and>
            messages (handleSendMessage_failed err (handleSendMessage_begin now generated message c))
              = messages c @ [userMessage_of now generated message]) \<and>
         messages (hook_sendMessage_begin now generated message c)
           = messages c @ [userMessage_of now generated message] \<and>
         messages (hook_sendMessage_failed err (hook_sendMessage_begin now generated message c))
           = messages c @ [userMessage_of now generated message] \<and>
         msg_type (userMessage_of now generated message) = User \<and>
         content (userMessage_of now generated message) = trim message"
  using assms
  by (simp add: api_begin_messages handleSendMessage_begin_def hook_sendMessage_begin_def
      handleSendMessage_failed_def hook_sendMessage_failed_def userMessage_of_def Let_def
      split: option.splits)

theorem send_appends_optimistic_message_witness:
  "trim ''  hello  '' \<noteq> [] \<and> \<not> isLoading chat_initial \<and>
   messages (handleSendMessage_begin 7 ''id1'' ''  hello  '' chat_initial)
     = [\<lparr> msg_id = ''id1'', msg_type = User, content = ''hello'', timestamp = 7,
          query_plan = None, code_blocks = None, streaming = None \<rparr>] \<and>
   messages (handleSendMessage_failed ''offline''
               (handleSendMessage_begin 7 ''id1'' ''  hello  '' chat_initial))
     = [\<lparr> msg_id = ''id1'', msg_type = User, content = ''hello'', timestamp = 7,
          query_plan = None, code_blocks = None, streaming = None \<rparr>] \<and>
   api_calls (handleSendMessage_begin 7 ''id1'' ''  hello  '' chat_initial) = [StartThread ''hello'']"
  using send_appends_optimistic_message [of "''  hello  ''" chat_initial 7 "''id1''" "''offline''"]
  by (simp add: api_begin_messages chat_initial_def userMessage_of_def trim_def isWhiteSpace_def
      handleSendMessage_begin_def api_startThread_begin_def sanitizeUserInput_def)

section \<open>Thread persistence\<close>

lemma storage_key_not_test: "createStorageKey projectId \<noteq> ''__storage_test__''"
  by (simp add: createStorageKey_def)

text \<open>
  C10, as stated, fails at the empty string: it is a non-null id that fails validation, but
  \<open>setCurrentThreadId\<close> treats it like \<open>null\<close> and removes the stored entry instead of
  leaving storage alone.
\<close>

theorem empty_thread_id_removes_entry_counterexample:
  "\<not> isValidThreadId [] \<and>
   localStorage (storage_sample (Some validId) [storageKey \<mapsto> validId]) storageKey
     = Some validId \<and>
   localStorage
     (setCurrentThreadId storageKey (Some [])
        (storage_sample (Some validId) [storageKey \<mapsto> validId]))
     storageKey = None"
  by (simp add: storage_key_not_test isValidThreadId_format hexThreadIdFormat_def
      groupedFormat_def setCurrentThreadId_def isStorageAvailable_def storageKey_def
      storage_sample_def)

text \<open>
  C10, amended: a value found under the storage key after \<open>setCurrentThreadId\<close> is a valid
  thread id or was there before; with a non-null and non-empty id that fails validation only
  the in-memory id is updated and the entry under the storage key is untouched; loading
  never changes that entry, adopts a value only if it is stored and valid, and ignores a
  stored value that fails validation.
\<close>

theorem persistence_keeps_only_valid_ids:
  "(localStorage (setCurrentThreadId (createStorageKey projectId) threadId p)
       (createStorageKey projectId) = Some v \<longrightarrow>
      isValidThreadId v \<or> localStorage p (createStorageKey projectId) = Some v) \<and>
   (t \<noteq> [] \<and> \<not> isValidThreadId t \<longrightarrow>
      currentThreadId (setCurrentThreadId (createStorageKey projectId) (Some t) p) = Some t \<and>
      localStorage (setCurrentThreadId (createStorageKey projectId) (Some t) p)
          (createStorageKey projectId)
        = localStorage p (createStorageKey projectId)) \<and>
   localStorage (loadThreadId (createStorageKey projectId) p) (createStorageKey projectId)
     = localStorage p (createStorageKey projectId) \<and>
   (currentThreadId (loadThreadId (createStorageKey projectId) p) = Some w \<longrightarrow>
      currentThreadId p = Some w \<or>
      (isValidThreadId w \<and> localStorage p (createStorageKey projectId) = Some w)) \<and>
   (localStorage p (createStorageKey projectId) = Some u \<and> \<not> isValidThreadId u \<longrightarrow>
      currentThreadId (loadThreadId (createStorageKey projectId) p) = currentThreadId p)"
  by (auto simp: storage_key_not_test setCurrentThreadId_def loadThreadId_def
      isStorageAvailable_def
      split: option.splits if_splits)

theorem persistence_keeps_only_valid_ids_witness:
  "localStorage
     (setCurrentThreadId (createStorageKey ''promptql-chat'') (Some validId)
        (storage_sample None Map.empty))
     (createStorageKey ''promptql-chat'') = Some validId \<and>
   currentThreadId
     (setCurrentThreadId (createStorageKey ''promptql-chat'') (Some invalidId)
        (storage_sample None Map.empty))
     = Some invalidId \<and>
   localStorage
     (setCurrentThreadId (createStorageKey ''promptql-chat'') (Some invalidId)
        (storage_sample None Map.empty))
     (createStorageKey ''promptql-chat'') = None \<and>
   currentThreadId
     (loadThreadId (createStorageKey ''promptql-chat'')
        (storage_sample None [createStorageKey ''promptql-chat'' \<mapsto> validId]))
     = Some validId \<and>
   currentThreadId
     (loadThreadId (createStorageKey ''promptql-chat'')
        (storage_sample None [createStorageKey ''promptql-chat'' \<mapsto> invalidId]))
     = None"
  using
    persistence_keeps_only_valid_ids [of "''promptql-chat''" "Some validId"
      "storage_sample None Map.empty" validId invalidId validId invalidId]
    persistence_keeps_only_valid_ids [of "''promptql-chat''" None
      "storage_sample None [createStorageKey ''promptql-chat'' \<mapsto> validId]"
      validId invalidId validId invalidId]
    persistence_keeps_only_valid_ids [of "''promptql-chat''" None
      "storage_sample None [createStorageKey ''promptql-chat'' \<mapsto> invalidId]"
      validId invalidId validId invalidId]
  by (simp add: storage_key_not_test validId_def invalidId_def isValidThreadId_format
      hexThreadIdFormat_def groupedFormat_def isHexDigit_def setCurrentThreadId_def
      loadThreadId_def isStorageAvailable_def storage_sample_def)

section \<open>Cancelling\<close>

text \<open>The component cleans up at once, whatever the cancel call does later.\<close>

lemma component_cancel_is_immediate:
  "isLoading (handleCancelMessage_begin c) = False \<and>
   chat_error (handleCancelMessage_begin c) = None \<and>
   sse_error (sse (handleCancelMessage_begin c)) = None \<and>
   connectionState (sse (handleCancelMessage_begin c)) = Disconnected \<and>
   isLoading (handleCancelMessage_settled outcome (handleCancelMessage_begin c)) = False \<and>
   chat_error (handleCancelMessage_settled outcome (handleCancelMessage_begin c)) = None"
  by (simp add: handleCancelMessage_begin_def handleCancelMessage_settled_def api_settled_def
      api_cancelThread_begin_def api_clearError_def sse_clearError_def disconnect_def Let_def
      split: option.splits)

lemma component_cancel_clears_api_error:
  assumes "case currentThreadId (threadPersistence c) of
             None \<Rightarrow> True | Some t \<Rightarrow> t \<noteq> [] \<longrightarrow> isValidThreadId t"
  shows "api_error (handleCancelMessage_begin c) = None"
  using assms
  by (auto simp: handleCancelMessage_begin_def api_cancelThread_begin_def api_clearError_def
      Let_def split: option.splits)

text \<open>The hook's \<open>cancelMessage\<close> changes neither of the two before the cancel call
  settles.\<close>

lemma hook_cancel_begin_keeps_state:
  "isLoading (hook_cancelMessage_begin c) = isLoading c \<and>
   chat_error (hook_cancelMessage_begin c) = chat_error c \<and>
   sse (hook_cancelMessage_begin c) = sse c"
  by (simp add: hook_cancelMessage_begin_def api_cancelThread_begin_def Let_def
      split: option.splits)

text \<open>
  C1: the headless hook does not do what the claim says. Its \<open>cancelMessage\<close> first awaits
  the cancel call: until that settles \<open>isLoading\<close> and the error are as they were; when
  the call fails \<open>isLoading\<close> is not cleared and the failure becomes the error; when it
  succeeds the earlier error is still there.
\<close>

theorem hook_cancel_waits_for_server:
  "isLoading chat_busy_sample \<and> chat_error chat_busy_sample = Some ''earlier failure'' \<and>
   currentThreadId (threadPersistence chat_busy_sample) = Some validId \<and>
   isLoading (hook_cancelMessage_begin chat_busy_sample) \<and>
   chat_error (hook_cancelMessage_begin chat_busy_sample) = Some ''earlier failure'' \<and>
   isLoading (hook_cancelMessage_rejected ''cancel failed''
                (hook_cancelMessage_begin chat_busy_sample)) \<and>
   chat_error (hook_cancelMessage_rejected ''cancel failed''
                 (hook_cancelMessage_begin chat_busy_sample)) = Some ''cancel failed'' \<and>
   chat_error (hook_cancelMessage_resolved (hook_cancelMessage_begin chat_busy_sample))
     = Some ''earlier failure''"
  by (simp add: hook_cancelMessage_begin_def hook_cancelMessage_rejected_def
      hook_cancelMessage_resolved_def chat_busy_sample_def chat_initial_def
      storage_sample_def validId_def api_cancelThread_begin_def api_settled_def Let_def)

end
